theory Spec2Isabelle
  imports Main "HOL-Library.Sublist" "HOL-Library.AList"
begin

chapter \<open>The system-telemetry service of the EDA server backend: the model\<close>

text \<open>
  A shallow embedding of \<^verbatim>\<open>app/services/system_info_service.py\<close>: the command
  executor, the S.M.A.R.T. analyzer, the S.M.A.R.T. collection cycle, the bounded
  realtime history and the copy-out accessors of the metric store. The first chapter holds
  the model, the second the properties.

  Conventions of the model.
  \<^item> A Python \<^verbatim>\<open>str\<close> is the list of its Unicode code points. The literals of
    the source that contain CJK text or emoji are written out as code points, with an
    English gloss.
  \<^item> The data \<^verbatim>\<open>json.loads\<close> returns is the datatype \<open>json\<close>; Python's
    \<^verbatim>\<open>None\<close> is \<open>JNull\<close>. Numbers are integers (of any size, as Python's are);
    JSON numbers with a fraction or an exponent, which Python reads as floats, are
    outside the model.
  \<^item> An exception is a value: a function that can raise returns \<open>py_error + 'a\<close>, with
    \<open>Inl\<close> for the exception, and \<open>bindE\<close> sequences two steps as Python's statement
    order does.
\<close>

section \<open>Strings\<close>

type_synonym pystr = "nat list"

definition ascii :: "string \<Rightarrow> pystr" where
  "ascii s = map of_char s"

text \<open>\<^verbatim>\<open>str(n)\<close> and the \<^verbatim>\<open>{n}\<close> of an f-string, for an integer: decimal digits, with
  a minus sign (code point 45) for a negative number.\<close>

fun digits_of :: "nat \<Rightarrow> pystr" where
  "digits_of n = (if n < 10 then [48 + n] else digits_of (n div 10) @ [48 + n mod 10])"

declare digits_of.simps [simp del]

definition py_str_int :: "int \<Rightarrow> pystr" where
  "py_str_int i = (if i < 0 then 45 # digits_of (nat (- i)) else digits_of (nat i))"

text \<open>\<^verbatim>\<open>str.isspace\<close> on one code point, and \<^verbatim>\<open>str.strip()\<close>, which removes these
  code points from both ends.\<close>

definition py_isspace :: "nat \<Rightarrow> bool" where
  "py_isspace c =
     ((9 \<le> c \<and> c \<le> 13) \<or> (28 \<le> c \<and> c \<le> 32) \<or> c = 133 \<or> c = 160 \<or> c = 5760 \<or>
      (8192 \<le> c \<and> c \<le> 8202) \<or> c = 8232 \<or> c = 8233 \<or> c = 8239 \<or> c = 8287 \<or> c = 12288)"

definition py_strip :: "pystr \<Rightarrow> pystr" where
  "py_strip s = rev (dropWhile py_isspace (rev (dropWhile py_isspace s)))"

text \<open>\<^verbatim>\<open>sep.join(xs)\<close>.\<close>

fun py_join :: "pystr \<Rightarrow> pystr list \<Rightarrow> pystr" where
  "py_join sep [] = []"
| "py_join sep [x] = x"
| "py_join sep (x # y # ys) = x @ sep @ py_join sep (y # ys)"

text \<open>
  \<^verbatim>\<open>int(s)\<close> for a string, in base 10: surrounding whitespace is dropped, then comes an
  optional sign, then decimal digits, where one underscore may stand between two
  digits. Anything else is a ValueError (\<open>None\<close> here). The whitespace of \<^verbatim>\<open>int\<close> is
  not that of \<^verbatim>\<open>str.strip\<close>: the interpreter turns every whitespace code point from
  127 on into a space and then skips the ASCII whitespace of C (tab to carriage return,
  and the space), so the separators U+001C to U+001F are not dropped. Python also
  accepts the decimal digits of other scripts, by the Unicode database of the
  interpreter; the model reads the ASCII digits only, and a string with another digit
  is \<open>None\<close>. The limit that newer interpreters put on the number of digits (4300 by
  default) is not modelled either.
\<close>

definition int_isspace :: "nat \<Rightarrow> bool" where
  "int_isspace c = (py_isspace c \<and> \<not> (28 \<le> c \<and> c \<le> 31))"

definition int_strip :: "pystr \<Rightarrow> pystr" where
  "int_strip s = rev (dropWhile int_isspace (rev (dropWhile int_isspace s)))"

definition is_digit :: "nat \<Rightarrow> bool" where
  "is_digit c = (48 \<le> c \<and> c \<le> 57)"

fun digits_ok :: "pystr \<Rightarrow> bool" where
  "digits_ok [] = False"
| "digits_ok [c] = is_digit c"
| "digits_ok (c # d # cs) =
     (is_digit c \<and>
      (if d = 95 then (case cs of [] \<Rightarrow> False | e # _ \<Rightarrow> is_digit e \<and> digits_ok cs)
       else digits_ok (d # cs)))"

definition digits_value :: "pystr \<Rightarrow> nat" where
  "digits_value cs = foldl (\<lambda>acc c. if c = 95 then acc else acc * 10 + (c - 48)) 0 cs"

definition py_int_of_str :: "pystr \<Rightarrow> int option" where
  "py_int_of_str s =
     (case int_strip s of
        [] \<Rightarrow> None
      | c # cs \<Rightarrow>
          if c = 45 then (if digits_ok cs then Some (- int (digits_value cs)) else None)
          else if c = 43 then (if digits_ok cs then Some (int (digits_value cs)) else None)
          else if digits_ok (c # cs) then Some (int (digits_value (c # cs)))
          else None)"

section \<open>Python values and exceptions\<close>

datatype json =
    JNull
  | JBool bool
  | JInt int
  | JStr pystr
  | JArr "json list"
  | JObj "(pystr \<times> json) list"

text \<open>A \<^verbatim>\<open>dict\<close> is the list of its items in insertion order; its keys are distinct, and
  a lookup is \<open>map_of\<close>.\<close>

text \<open>The exceptions that the modelled code can raise: those of the operations on
  values, the OverflowError of \<^verbatim>\<open>deque(maxlen=n)\<close>, and the RecursionError of
  \<^verbatim>\<open>json.loads\<close>.\<close>

datatype py_error =
    AttributeError | TypeError | KeyError | ValueError | ZeroDivisionError
  | OverflowError | RecursionError

definition bindE :: "'e + 'a \<Rightarrow> ('a \<Rightarrow> 'e + 'b) \<Rightarrow> 'e + 'b" where
  "bindE m f = (case m of Inl e \<Rightarrow> Inl e | Inr x \<Rightarrow> f x)"

text \<open>The truth value of an object, as \<^verbatim>\<open>not x\<close> and \<^verbatim>\<open>if x\<close> take it.\<close>

fun truthy :: "json \<Rightarrow> bool" where
  "truthy JNull = False"
| "truthy (JBool b) = b"
| "truthy (JInt i) = (i \<noteq> 0)"
| "truthy (JStr s) = (s \<noteq> [])"
| "truthy (JArr xs) = (xs \<noteq> [])"
| "truthy (JObj kvs) = (kvs \<noteq> [])"

text \<open>\<^verbatim>\<open>x.get(k, d)\<close>: only a dict has the method.\<close>

fun py_get :: "json \<Rightarrow> pystr \<Rightarrow> json \<Rightarrow> py_error + json" where
  "py_get (JObj kvs) k d = Inr (case map_of kvs k of Some v \<Rightarrow> v | None \<Rightarrow> d)"
| "py_get _ k d = Inl AttributeError"

text \<open>\<^verbatim>\<open>k in x\<close> for a string \<open>k\<close>: a key of a dict, an element of a list, a substring
  of a string; the other values are not iterable.\<close>

fun py_in :: "pystr \<Rightarrow> json \<Rightarrow> py_error + bool" where
  "py_in k (JObj kvs) = Inr (map_of kvs k \<noteq> None)"
| "py_in k (JArr xs) = Inr (JStr k \<in> set xs)"
| "py_in k (JStr s) = Inr (sublist k s)"
| "py_in k _ = Inl TypeError"

text \<open>\<^verbatim>\<open>x[k]\<close> for a string \<open>k\<close>: a missing key of a dict is a KeyError; a list and a
  string take integer indices only, and the other values have no subscript.\<close>

fun py_index :: "json \<Rightarrow> pystr \<Rightarrow> py_error + json" where
  "py_index (JObj kvs) k = (case map_of kvs k of Some v \<Rightarrow> Inr v | None \<Rightarrow> Inl KeyError)"
| "py_index _ k = Inl TypeError"

text \<open>The elements a \<^verbatim>\<open>for\<close> loop visits: those of a list, the keys of a dict, the
  characters of a string.\<close>

fun py_iter :: "json \<Rightarrow> py_error + json list" where
  "py_iter (JArr xs) = Inr xs"
| "py_iter (JObj kvs) = Inr (map (\<lambda>kv. JStr (fst kv)) kvs)"
| "py_iter (JStr s) = Inr (map (\<lambda>c. JStr [c]) s)"
| "py_iter _ = Inl TypeError"

text \<open>\<^verbatim>\<open>x > n\<close> for an integer \<open>n\<close>: defined on numbers, and \<^verbatim>\<open>bool\<close> is a subclass of
  \<^verbatim>\<open>int\<close> (\<^verbatim>\<open>True\<close> is 1).\<close>

fun py_gt :: "json \<Rightarrow> int \<Rightarrow> py_error + bool" where
  "py_gt (JInt i) n = Inr (n < i)"
| "py_gt (JBool b) n = Inr (n < (if b then 1 else 0))"
| "py_gt _ n = Inl TypeError"

text \<open>\<^verbatim>\<open>int(x)\<close>.\<close>

fun py_int :: "json \<Rightarrow> py_error + int" where
  "py_int (JInt i) = Inr i"
| "py_int (JBool b) = Inr (if b then 1 else 0)"
| "py_int (JStr s) = (case py_int_of_str s of Some i \<Rightarrow> Inr i | None \<Rightarrow> Inl ValueError)"
| "py_int _ = Inl TypeError"

text \<open>The integer a value equals as a dict key, if any: a list and a dict are unhashable,
  \<^verbatim>\<open>True\<close> and \<^verbatim>\<open>False\<close> hash and compare as 1 and 0, a string and \<^verbatim>\<open>None\<close> equal no
  integer.\<close>

fun py_int_key :: "json \<Rightarrow> py_error + int option" where
  "py_int_key (JInt i) = Inr (Some i)"
| "py_int_key (JBool b) = Inr (Some (if b then 1 else 0))"
| "py_int_key JNull = Inr None"
| "py_int_key (JStr s) = Inr None"
| "py_int_key _ = Inl TypeError"

text \<open>The text an f-string puts for \<^verbatim>\<open>{x}\<close>. The analyzer formats a value only after
  \<open>py_gt\<close> or \<open>py_int_key\<close> has accepted it, so a list or a dict never gets here; their
  case is the empty string.\<close>

fun py_format :: "json \<Rightarrow> pystr" where
  "py_format (JInt i) = py_str_int i"
| "py_format (JBool b) = (if b then ascii ''True'' else ascii ''False'')"
| "py_format JNull = ascii ''None''"
| "py_format (JStr s) = s"
| "py_format _ = []"

section \<open>The command executor\<close>

text \<open>
  What \<^verbatim>\<open>subprocess.run(..., capture_output=True, text=True, check=True, timeout=60)\<close>
  can do in a worker thread: return the completed process, of which the code reads the
  captured standard output, or raise. The exceptions are those the \<^verbatim>\<open>except\<close> clauses
  tell apart: \<^verbatim>\<open>FileNotFoundError\<close> with its \<^verbatim>\<open>filename\<close> (which may be \<^verbatim>\<open>None\<close>),
  \<^verbatim>\<open>TimeoutExpired\<close>, \<^verbatim>\<open>CalledProcessError\<close> with the exit code and the captured
  standard output and standard error (strings, since the output is captured as text),
  and any other subclass of \<^verbatim>\<open>Exception\<close>, with the text \<^verbatim>\<open>str(e)\<close> gives.
\<close>

datatype run_exception =
    FileNotFoundError "pystr option"
  | TimeoutExpired
  | CalledProcessError int pystr pystr
  | OtherException pystr

type_synonym process_runner = "pystr list \<Rightarrow> run_exception + pystr"

text \<open>The literal pieces of the diagnostic messages: ``Command not found: '', a full stop
  and ``Make sure the tool is installed.'', ``Command ' '', `` ' timed out.'', `` ' failed: '',
  `` (Exit Code: '', ``)'', ``An unknown error occurred while running the command: ''.\<close>

definition err_notfound_pre :: pystr where
  "err_notfound_pre =
     [21629, 20196, 26410, 25214, 21040, 58, 32]"

definition err_notfound_post :: pystr where
  "err_notfound_post =
     [12290, 35831, 30830, 20445, 30456, 20851, 24037, 20855, 24050, 23433, 35013,
      12290]"

definition err_cmd_pre :: pystr where
  "err_cmd_pre =
     [21629, 20196, 32, 39]"

definition err_timeout_post :: pystr where
  "err_timeout_post =
     [39, 32, 25191, 34892, 36229, 26102, 12290]"

definition err_failed_mid :: pystr where
  "err_failed_mid =
     [39, 32, 25191, 34892, 22833, 36133, 58, 32]"

definition err_exit_pre :: pystr where
  "err_exit_pre =
     [32, 40, 69, 120, 105, 116, 32, 67, 111, 100, 101, 58, 32]"

definition err_exit_post :: pystr where
  "err_exit_post =
     [41]"

definition err_unknown_pre :: pystr where
  "err_unknown_pre =
     [25191, 34892, 21629, 20196, 26102, 21457, 29983, 26410, 30693, 38169, 35823, 58,
      32]"

definition full_command_of :: "pystr list \<Rightarrow> bool \<Rightarrow> pystr list" where
  "full_command_of command use_sudo = (if use_sudo then [ascii ''sudo''] @ command else command)"

text \<open>The \<^verbatim>\<open>except\<close> clauses of \<^verbatim>\<open>_run_command\<close>, in their order; the last one catches every
  \<^verbatim>\<open>Exception\<close>.\<close>

fun except_clauses :: "pystr list \<Rightarrow> run_exception \<Rightarrow> run_exception + bool \<times> pystr" where
  "except_clauses full_command (FileNotFoundError filename) =
     Inr (False,
          err_notfound_pre @ (case filename of None \<Rightarrow> ascii ''None'' | Some f \<Rightarrow> f) @
          err_notfound_post)"
| "except_clauses full_command TimeoutExpired =
     Inr (False, err_cmd_pre @ py_join (ascii '' '') full_command @ err_timeout_post)"
| "except_clauses full_command (CalledProcessError returncode stdout stderr) =
     (let error_msg = (if stderr \<noteq> [] then py_strip stderr else py_strip stdout)
      in Inr (False,
              err_cmd_pre @ py_join (ascii '' '') full_command @ err_failed_mid @ error_msg @
              err_exit_pre @ py_str_int returncode @ err_exit_post))"
| "except_clauses full_command (OtherException e) = Inr (False, err_unknown_pre @ e)"

definition run_command ::
  "process_runner \<Rightarrow> pystr list \<Rightarrow> bool \<Rightarrow> run_exception + bool \<times> pystr" where
  "run_command subprocess_run command use_sudo =
     (let full_command = full_command_of command use_sudo
      in case subprocess_run full_command of
           Inr stdout \<Rightarrow> Inr (True, py_strip stdout)
         | Inl e \<Rightarrow> except_clauses full_command e)"

section \<open>The metric store and the realtime history\<close>

text \<open>\<^verbatim>\<open>collections.deque\<close>: \<^verbatim>\<open>deque()\<close> is unbounded; \<^verbatim>\<open>deque(maxlen=n)\<close> converts
  \<open>n\<close> to a signed machine word (\<^verbatim>\<open>Py_ssize_t\<close>, 64 bits on the platforms the service
  runs on) and raises OverflowError when it does not fit, then raises ValueError for a
  negative \<open>n\<close>; \<^verbatim>\<open>append\<close> adds on the right and, when the length then exceeds
  \<open>maxlen\<close>, removes one element on the left.\<close>

record 'a deque =
  items :: "'a list"
  maxlen :: "nat option"

definition deque_empty :: "'a deque" where
  "deque_empty = \<lparr>items = [], maxlen = None\<rparr>"

definition deque_maxlen :: "int \<Rightarrow> py_error + 'a deque" where
  "deque_maxlen n =
     (if n < - (2 ^ 63) \<or> 2 ^ 63 - 1 < n then Inl OverflowError
      else if n < 0 then Inl ValueError
      else Inr \<lparr>items = [], maxlen = Some (nat n)\<rparr>)"

definition deque_append :: "'a \<Rightarrow> 'a deque \<Rightarrow> 'a deque" where
  "deque_append x d =
     (let xs = items d @ [x]
      in case maxlen d of
           None \<Rightarrow> d\<lparr>items := xs\<rparr>
         | Some n \<Rightarrow> if n < length xs then d\<lparr>items := tl xs\<rparr> else d\<lparr>items := xs\<rparr>)"

text \<open>\<^verbatim>\<open>a // b\<close> on integers: ZeroDivisionError for \<open>b = 0\<close>, else the floor of the
  quotient, which is \<open>div\<close> on \<open>int\<close>.\<close>

definition py_floordiv :: "int \<Rightarrow> int \<Rightarrow> py_error + int" where
  "py_floordiv a b = (if b = 0 then Inl ZeroDivisionError else Inr (a div b))"

text \<open>The three options \<^verbatim>\<open>start\<close> reads from \<^verbatim>\<open>app.config\<close>; \<^verbatim>\<open>config.py\<close> makes the
  first two with \<^verbatim>\<open>int(...)\<close>.\<close>

record config =
  REALTIME_COLLECTION_INTERVAL :: int
  REALTIME_RETENTION_MINUTES :: int
  DISK_USAGE_PATHS :: "pystr list"

text \<open>
  The state of \<^verbatim>\<open>SystemInfoService\<close> that the claims are about. \<open>'r\<close> is the type of a
  stored report and \<open>'s\<close> of a realtime sample. \<open>realtime_alive\<close> stands for
  \<^verbatim>\<open>self._realtime_thread is not None and self._realtime_thread.is_alive()\<close>. The lock,
  the shutdown event and the Flask application are not modelled: every operation below
  is one critical section or runs in one thread.
\<close>

record ('r, 's) service =
  hardware_info :: "'r option"
  realtime_history :: "'s deque"
  disk_usage :: "'r option"
  smart_info :: "'r option"
  config_of :: "config option"
  realtime_alive :: bool

definition init_service :: "('r, 's) service" where
  "init_service =
     \<lparr>hardware_info = None, realtime_history = deque_empty, disk_usage = None,
      smart_info = None, config_of = None, realtime_alive = False\<rparr>"

text \<open>\<^verbatim>\<open>start(app)\<close>. The state comes back with the exception, if any: \<^verbatim>\<open>self._config\<close>
  is assigned before the deque is made, and stays assigned when that raises.\<close>

definition start :: "config \<Rightarrow> ('r, 's) service \<Rightarrow> py_error option \<times> ('r, 's) service" where
  "start app_config self =
     (if realtime_alive self then (None, self)
      else
        let self1 = self\<lparr>config_of := Some app_config\<rparr>;
            interval = REALTIME_COLLECTION_INTERVAL app_config;
            retention_mins = REALTIME_RETENTION_MINUTES app_config
        in case py_floordiv (retention_mins * 60) interval of
             Inl e \<Rightarrow> (Some e, self1)
           | Inr max_len \<Rightarrow>
               (case deque_maxlen max_len of
                  Inl e \<Rightarrow> (Some e, self1)
                | Inr d \<Rightarrow> (None, self1\<lparr>realtime_history := d, realtime_alive := True\<rparr>)))"

definition stop :: "('r, 's) service \<Rightarrow> ('r, 's) service" where
  "stop self = self\<lparr>realtime_alive := False\<rparr>"

text \<open>One turn of \<^verbatim>\<open>_realtime_collection_loop\<close>, with the sample it has collected: the
  append under the lock. The loop is the thread that \<^verbatim>\<open>start\<close> creates, so it appends
  only while that thread is alive.\<close>

definition realtime_collect :: "'s \<Rightarrow> ('r, 's) service \<Rightarrow> ('r, 's) service" where
  "realtime_collect sample self =
     (if realtime_alive self
      then self\<lparr>realtime_history := deque_append sample (realtime_history self)\<rparr>
      else self)"

text \<open>What happens to the service during the life of the process, with the configuration
  of the application fixed.\<close>

datatype 's event = Start | Sample 's | Stop

fun step :: "config \<Rightarrow> 's event \<Rightarrow> ('r, 's) service \<Rightarrow> ('r, 's) service" where
  "step cfg Start self = snd (start cfg self)"
| "step cfg (Sample x) self = realtime_collect x self"
| "step cfg Stop self = stop self"

definition run :: "config \<Rightarrow> 's event list \<Rightarrow> ('r, 's) service \<Rightarrow> ('r, 's) service" where
  "run cfg es self = foldl (\<lambda>s e. step cfg e s) self es"

definition capacity :: "config \<Rightarrow> nat" where
  "capacity cfg = nat ((REALTIME_RETENTION_MINUTES cfg * 60) div REALTIME_COLLECTION_INTERVAL cfg)"

section \<open>The S.M.A.R.T. analyzer\<close>

datatype HealthStatus = HEALTHY | WARNING | FAILED | UNKNOWN

text \<open>The values of the enumeration: two CJK characters each, then `` (PASSED)'', `` (WARNING)'', `` (FAILED)'' and `` (UNKNOWN)''.\<close>

definition HEALTHY_value :: pystr where
  "HEALTHY_value =
     [20581, 24247, 32, 40, 80, 65, 83, 83, 69, 68, 41]"

definition WARNING_value :: pystr where
  "WARNING_value =
     [35686, 21578, 32, 40, 87, 65, 82, 78, 73, 78, 71, 41]"

definition FAILED_value :: pystr where
  "FAILED_value =
     [21361, 38505, 32, 40, 70, 65, 73, 76, 69, 68, 41]"

definition UNKNOWN_value :: pystr where
  "UNKNOWN_value =
     [26410, 30693, 32, 40, 85, 78, 75, 78, 79, 87, 78, 41]"

fun status_name :: "HealthStatus \<Rightarrow> pystr" where
  "status_name HEALTHY = ascii ''HEALTHY''"
| "status_name WARNING = ascii ''WARNING''"
| "status_name FAILED = ascii ''FAILED''"
| "status_name UNKNOWN = ascii ''UNKNOWN''"

fun status_value :: "HealthStatus \<Rightarrow> pystr" where
  "status_value HEALTHY = HEALTHY_value"
| "status_value WARNING = WARNING_value"
| "status_value FAILED = FAILED_value"
| "status_value UNKNOWN = UNKNOWN_value"

text \<open>The descriptions of the five critical attributes (reallocated sectors, reported
  uncorrectable errors, command timeouts, current pending sectors, offline uncorrectable
  errors).\<close>

definition desc_5 :: pystr where
  "desc_5 =
     [24050, 37325, 26144, 23556, 25159, 21306, 25968, 12290, 24403, 30828, 30424,
      21457, 29616, 35835, 47, 20889, 47, 26657, 39564, 38169, 35823, 26102, 65292,
      20250, 23558, 35813, 25159, 21306, 26631, 35760, 20026, 8220, 24050, 37325, 26144,
      23556, 8221, 24182, 20351, 29992, 22791, 29992, 25159, 21306, 26367, 25442, 12290,
      38750, 38646, 20540, 26159, 30913, 30424, 34920, 38754, 36864, 21270, 30340,
      26126, 30830, 20449, 21495, 12290]"

definition desc_187 :: pystr where
  "desc_187 =
     [26080, 27861, 20462, 27491, 30340, 38169, 35823, 35745, 25968, 12290, 38750,
      38646, 20540, 34920, 31034, 23384, 22312, 25968, 25454, 25439, 22351, 39118,
      38505, 12290]"

definition desc_188 :: pystr where
  "desc_188 =
     [21629, 20196, 36229, 26102, 35745, 25968, 12290, 21487, 33021, 19982, 30005,
      28304, 25110, 32447, 32518, 38382, 39064, 26377, 20851, 12290]"

definition desc_197 :: pystr where
  "desc_197 =
     [24403, 21069, 24453, 22788, 29702, 25159, 21306, 25968, 12290, 36825, 20123,
      26159, 19981, 31283, 23450, 25159, 21306, 65292, 31561, 24453, 34987, 37325,
      26144, 23556, 12290, 38750, 38646, 20540, 26159, 21363, 23558, 21457, 29983,
      25925, 38556, 30340, 24378, 28872, 39044, 35686, 12290]"

definition desc_198 :: pystr where
  "desc_198 =
     [33073, 26426, 26080, 27861, 26657, 27491, 30340, 38169, 35823, 35745, 25968,
      12290, 19982, 49, 57, 55, 31867, 20284, 65292, 26159, 20005, 37325, 38382, 39064,
      30340, 26631, 24535, 12290]"

text \<open>The table \<^verbatim>\<open>CRITICAL_ATA_ATTRIBUTES\<close>: attribute id to name, description, and
  whether a raw value above 0 is alarming.\<close>

definition CRITICAL_ATA_ATTRIBUTES :: "(int \<times> pystr \<times> pystr \<times> bool) list" where
  "CRITICAL_ATA_ATTRIBUTES =
     [(5, ascii ''Reallocated_Sector_Ct'', desc_5, True),
      (187, ascii ''Reported_Uncorrect'', desc_187, True),
      (188, ascii ''Command_Timeout'', desc_188, True),
      (197, ascii ''Current_Pending_Sector_Ct'', desc_197, True),
      (198, ascii ''Offline_Uncorrectable'', desc_198, True)]"

text \<open>The summary lines and recommendations. ``S.M.A.R.T. data could not be obtained.''
  and ``Check the device connection and permissions.''; a cross mark (U+274C) and ``the overall
  self-test status is failed!'' with ``Back up all important data now and prepare to replace
  this disk!''; a check mark (U+2705) and ``the overall self-test status is passed.''; a cross
  mark and ``NVMe reports a critical warning.'' with ``Check the SSD now, back up the
  data.''\<close>

definition msg_no_data :: pystr where
  "msg_no_data =
     [26080, 27861, 33719, 21462, 83, 46, 77, 46, 65, 46, 82, 46, 84, 46, 25968, 25454,
      12290]"

definition rec_check_connection :: pystr where
  "rec_check_connection =
     [35831, 26816, 26597, 35774, 22791, 36830, 25509, 21644, 26435, 38480, 12290]"

definition msg_selftest_failed :: pystr where
  "msg_selftest_failed =
     [10060, 32, 25972, 20307, 83, 46, 77, 46, 65, 46, 82, 46, 84, 46, 33258, 26816,
      29366, 24577, 20026, 22833, 36133, 65281]"

definition rec_backup_replace :: pystr where
  "rec_backup_replace =
     [31435, 21363, 22791, 20221, 25152, 26377, 37325, 35201, 25968, 25454, 24182,
      20934, 22791, 26356, 25442, 27492, 30828, 30424, 65281]"

definition msg_selftest_passed :: pystr where
  "msg_selftest_passed =
     [9989, 32, 25972, 20307, 83, 46, 77, 46, 65, 46, 82, 46, 84, 46, 33258, 26816,
      29366, 24577, 20026, 36890, 36807, 12290]"

definition msg_nvme_critical :: pystr where
  "msg_nvme_critical =
     [10060, 32, 78, 86, 77, 101, 32, 21457, 29616, 20005, 37325, 35686, 21578, 12290]"

definition rec_check_ssd :: pystr where
  "rec_check_ssd =
     [31435, 21363, 26816, 26597, 83, 83, 68, 29366, 24577, 65292, 22791, 20221, 25968,
      25454, 12290]"

text \<open>A warning sign (U+26A0 U+FE0F) and ``NVMe SSD life used has reached '', then the
  number, then a percent sign and a full stop; with ``Consider replacing this SSD in the near
  future.''\<close>

definition life_pre :: pystr where
  "life_pre =
     [9888, 65039, 32, 78, 86, 77, 101, 32, 83, 83, 68, 32, 24050, 29992, 23551, 21629,
      36798, 21040, 32]"

definition life_post :: pystr where
  "life_post =
     [37, 12290]"

definition rec_replace_ssd :: pystr where
  "rec_replace_ssd =
     [32771, 34385, 22312, 19981, 20037, 30340, 23558, 26469, 26356, 25442, 27492, 83,
      83, 68, 12290]"

text \<open>A warning sign and ``critical attribute anomaly found:'', then the name, `` (ID '',
  the id, ``) has the value '', the raw value and a full stop; with ``Monitor '', the name and
  `` 's value. If it keeps growing, prepare to replace the disk.''\<close>

definition attr_pre :: pystr where
  "attr_pre =
     [9888, 65039, 32, 21457, 29616, 20851, 38190, 23646, 24615, 24322, 24120, 65306]"

definition attr_mid1 :: pystr where
  "attr_mid1 =
     [32, 40, 73, 68, 32]"

definition attr_mid2 :: pystr where
  "attr_mid2 =
     [41, 32, 30340, 20540, 20026, 32]"

definition attr_post :: pystr where
  "attr_post =
     [12290]"

definition rec_monitor_pre :: pystr where
  "rec_monitor_pre =
     [30417, 25511, 32]"

definition rec_monitor_post :: pystr where
  "rec_monitor_post =
     [32, 30340, 20540, 12290, 22914, 26524, 25345, 32493, 22686, 38271, 65292, 35831,
      20934, 22791, 26356, 25442, 30828, 30424, 12290]"

text \<open>A fire sign (U+1F525) and ``temperature is high ('', the temperature, a degree sign,
  ``C)'' and an exclamation mark; with ``Check the case ventilation and cooling.''\<close>

definition temp_pre :: pystr where
  "temp_pre =
     [128293, 32, 28201, 24230, 20559, 39640, 32, 40]"

definition temp_post :: pystr where
  "temp_post =
     [176, 67, 41, 65281]"

definition rec_cooling :: pystr where
  "rec_cooling =
     [26816, 26597, 26426, 31665, 36890, 39118, 21644, 25955, 28909, 24773, 20917,
      12290]"

text \<open>The check mark that is searched for in the first summary line; a check mark and ``no
  evident S.M.A.R.T. warning attribute found.'' with ``Keep up the good usage habits, check
  regularly.''\<close>

definition check_mark :: pystr where
  "check_mark =
     [9989]"

definition msg_no_anomaly :: pystr where
  "msg_no_anomaly =
     [9989, 32, 26410, 21457, 29616, 26126, 26174, 30340, 83, 46, 77, 46, 65, 46, 82,
      46, 84, 46, 35686, 21578, 23646, 24615, 12290]"

definition rec_keep :: pystr where
  "rec_keep =
     [32487, 32493, 20445, 25345, 33391, 22909, 20351, 29992, 20064, 24815, 65292,
      23450, 26399, 26816, 26597, 12290]"

text \<open>One entry of \<^verbatim>\<open>critical_attributes\<close>. The fields are the keys \<^verbatim>\<open>id\<close>, \<^verbatim>\<open>name\<close>,
  \<^verbatim>\<open>raw_value\<close>, \<^verbatim>\<open>description\<close>, \<^verbatim>\<open>value\<close>, \<^verbatim>\<open>worst\<close> and \<^verbatim>\<open>thresh\<close> of the dict.\<close>

record finding =
  f_id :: json
  f_name :: pystr
  f_raw_value :: int
  f_description :: pystr
  f_value :: json
  f_worst :: json
  f_thresh :: json

text \<open>The dict \<^verbatim>\<open>_analyze_smart_data\<close> returns, with its keys as fields.\<close>

record SmartAnalysis =
  health_status :: pystr
  health_status_description :: pystr
  summary :: "pystr list"
  critical_attributes :: "finding list"
  recommendations :: "pystr list"

text \<open>The local variables \<^verbatim>\<open>status\<close>, \<^verbatim>\<open>summary\<close>, \<^verbatim>\<open>recommendations\<close> and
  \<^verbatim>\<open>critical_attributes\<close> of one analysis pass.\<close>

record pass_vars =
  status :: HealthStatus
  summary_v :: "pystr list"
  recommendations_v :: "pystr list"
  critical_attributes_v :: "finding list"

text \<open>The escalation \<^verbatim>\<open>if status == HealthStatus.HEALTHY: status = HealthStatus.WARNING\<close>.\<close>

definition warn :: "HealthStatus \<Rightarrow> HealthStatus" where
  "warn s = (if s = HEALTHY then WARNING else s)"

text \<open>Lines 427 to 432: the overall self-test.\<close>

definition selftest_rule :: "json \<Rightarrow> pass_vars \<Rightarrow> py_error + pass_vars" where
  "selftest_rule raw_data v =
     bindE (py_get raw_data (ascii ''smart_status'') (JObj [])) (\<lambda>smart_status.
     bindE (py_get smart_status (ascii ''passed'') (JBool False)) (\<lambda>passed.
       if \<not> truthy passed
       then Inr (v\<lparr>status := FAILED,
                   summary_v := summary_v v @ [msg_selftest_failed],
                   recommendations_v := recommendations_v v @ [rec_backup_replace]\<rparr>)
       else Inr (v\<lparr>summary_v := summary_v v @ [msg_selftest_passed]\<rparr>)))"

text \<open>Lines 436 to 439 and 441 to 445: the two rules on the NVMe health log.\<close>

definition nvme_critical_rule :: "json \<Rightarrow> pass_vars \<Rightarrow> py_error + pass_vars" where
  "nvme_critical_rule nvme_log v =
     bindE (py_get nvme_log (ascii ''critical_warning'') (JInt 0)) (\<lambda>critical_warning.
     bindE (py_gt critical_warning 0) (\<lambda>positive.
       if positive
       then Inr (v\<lparr>status := FAILED,
                   summary_v := summary_v v @ [msg_nvme_critical],
                   recommendations_v := recommendations_v v @ [rec_check_ssd]\<rparr>)
       else Inr v))"

definition nvme_life_rule :: "json \<Rightarrow> pass_vars \<Rightarrow> py_error + pass_vars" where
  "nvme_life_rule nvme_log v =
     bindE (py_get nvme_log (ascii ''percentage_used'') (JInt 0)) (\<lambda>percentage_used.
     bindE (py_gt percentage_used 85) (\<lambda>worn.
       if worn
       then Inr (v\<lparr>status := warn (status v),
                   summary_v := summary_v v @ [life_pre @ py_format percentage_used @ life_post],
                   recommendations_v := recommendations_v v @ [rec_replace_ssd]\<rparr>)
       else Inr v))"

definition nvme_rules :: "json \<Rightarrow> pass_vars \<Rightarrow> py_error + pass_vars" where
  "nvme_rules raw_data v =
     bindE (py_in (ascii ''nvme_smart_health_information_log'') raw_data) (\<lambda>present.
       if present
       then bindE (py_index raw_data (ascii ''nvme_smart_health_information_log'')) (\<lambda>nvme_log.
            bindE (nvme_critical_rule nvme_log v) (nvme_life_rule nvme_log))
       else Inr v)"

text \<open>Lines 449 to 455: what the loop reads of one attribute of the table. The result is
  \<open>None\<close> for an attribute whose id is not in \<^verbatim>\<open>CRITICAL_ATA_ATTRIBUTES\<close>.\<close>

record attr_reading =
  attr_id :: json
  name :: pystr
  desc :: pystr
  check_raw :: bool
  raw_value :: int
  normalized_value :: json
  worst_value :: json
  threshold_value :: json

definition read_attr :: "json \<Rightarrow> py_error + attr_reading option" where
  "read_attr attr =
     bindE (py_index attr (ascii ''id'')) (\<lambda>attr_id.
     bindE (py_int_key attr_id) (\<lambda>key.
       case (case key of None \<Rightarrow> None | Some i \<Rightarrow> map_of CRITICAL_ATA_ATTRIBUTES i) of
         None \<Rightarrow> Inr None
       | Some (nm, ds, chk) \<Rightarrow>
           bindE (py_get attr (ascii ''raw'') (JObj [])) (\<lambda>raw.
           bindE (py_get raw (ascii ''value'') (JInt 0)) (\<lambda>raw_v.
           bindE (py_int raw_v) (\<lambda>raw_value.
           bindE (py_get attr (ascii ''value'') JNull) (\<lambda>normalized_value.
           bindE (py_get attr (ascii ''worst'') JNull) (\<lambda>worst_value.
           bindE (py_get attr (ascii ''thresh'') JNull) (\<lambda>threshold_value.
             Inr (Some \<lparr>attr_id = attr_id, name = nm, desc = ds, check_raw = chk,
                         raw_value = raw_value, normalized_value = normalized_value,
                         worst_value = worst_value,
                         threshold_value = threshold_value\<rparr>)))))))))"

text \<open>Lines 457 to 466: the rule on one critical attribute.\<close>

definition attr_line :: "attr_reading \<Rightarrow> pystr" where
  "attr_line r =
     attr_pre @ name r @ attr_mid1 @ py_format (attr_id r) @ attr_mid2 @
     py_str_int (raw_value r) @ attr_post"

definition attr_recommendation :: "attr_reading \<Rightarrow> pystr" where
  "attr_recommendation r = rec_monitor_pre @ name r @ rec_monitor_post"

definition attr_finding :: "attr_reading \<Rightarrow> finding" where
  "attr_finding r =
     \<lparr>f_id = attr_id r, f_name = name r, f_raw_value = raw_value r, f_description = desc r,
      f_value = normalized_value r, f_worst = worst_value r, f_thresh = threshold_value r\<rparr>"

definition record_attr :: "attr_reading \<Rightarrow> pass_vars \<Rightarrow> pass_vars" where
  "record_attr r v =
     (if check_raw r \<and> 0 < raw_value r
      then v\<lparr>status := warn (status v),
             summary_v := summary_v v @ [attr_line r],
             recommendations_v := recommendations_v v @ [attr_recommendation r],
             critical_attributes_v := critical_attributes_v v @ [attr_finding r]\<rparr>
      else v)"

definition ata_attr_rule :: "json \<Rightarrow> pass_vars \<Rightarrow> py_error + pass_vars" where
  "ata_attr_rule attr v =
     bindE (read_attr attr) (\<lambda>r. case r of None \<Rightarrow> Inr v | Some rd \<Rightarrow> Inr (record_attr rd v))"

fun ata_loop :: "json list \<Rightarrow> pass_vars \<Rightarrow> py_error + pass_vars" where
  "ata_loop [] v = Inr v"
| "ata_loop (attr # rest) v = bindE (ata_attr_rule attr v) (ata_loop rest)"

definition ata_rules :: "json \<Rightarrow> pass_vars \<Rightarrow> py_error + pass_vars" where
  "ata_rules raw_data v =
     bindE (py_in (ascii ''ata_smart_attributes'') raw_data) (\<lambda>present.
       if present
       then bindE (py_index raw_data (ascii ''ata_smart_attributes'')) (\<lambda>ata.
            bindE (py_index ata (ascii ''table'')) (\<lambda>table.
            bindE (py_iter table) (\<lambda>attrs. ata_loop attrs v)))
       else Inr v)"

text \<open>Lines 468 to 472: the temperature.\<close>

definition temperature_rule :: "json \<Rightarrow> pass_vars \<Rightarrow> py_error + pass_vars" where
  "temperature_rule raw_data v =
     bindE (py_get raw_data (ascii ''temperature'') (JObj [])) (\<lambda>temperature.
     bindE (py_get temperature (ascii ''current'') JNull) (\<lambda>temp.
       if temp \<noteq> JNull
       then bindE (py_gt temp 55) (\<lambda>hot.
              if hot
              then Inr (v\<lparr>status := warn (status v),
                          summary_v := summary_v v @ [temp_pre @ py_format temp @ temp_post],
                          recommendations_v := recommendations_v v @ [rec_cooling]\<rparr>)
              else Inr v)
       else Inr v))"

text \<open>Lines 474 to 476: the pair added when the summary is the passed self-test alone.\<close>

definition no_anomaly_rule :: "pass_vars \<Rightarrow> pass_vars" where
  "no_anomaly_rule v =
     (if length (summary_v v) = 1 \<and> sublist check_mark (summary_v v ! 0)
      then v\<lparr>summary_v := summary_v v @ [msg_no_anomaly],
             recommendations_v := recommendations_v v @ [rec_keep]\<rparr>
      else v)"

definition unknown_analysis :: SmartAnalysis where
  "unknown_analysis =
     \<lparr>health_status = status_name UNKNOWN,
      health_status_description = status_value UNKNOWN,
      summary = [msg_no_data],
      critical_attributes = [],
      recommendations = [rec_check_connection]\<rparr>"

definition analysis_of :: "pass_vars \<Rightarrow> SmartAnalysis" where
  "analysis_of v =
     \<lparr>health_status = status_name (status v),
      health_status_description = status_value (status v),
      summary = summary_v v,
      critical_attributes = critical_attributes_v v,
      recommendations = recommendations_v v\<rparr>"

definition initial_vars :: pass_vars where
  "initial_vars =
     \<lparr>status = HEALTHY, summary_v = [], recommendations_v = [], critical_attributes_v = []\<rparr>"

text \<open>\<^verbatim>\<open>_analyze_smart_data(self, raw_data)\<close>.\<close>

definition analyze_smart_data :: "('r, 's) service \<Rightarrow> json \<Rightarrow> py_error + SmartAnalysis" where
  "analyze_smart_data self raw_data =
     (if \<not> truthy raw_data then Inr unknown_analysis
      else
        bindE (selftest_rule raw_data initial_vars) (\<lambda>v1.
        bindE (nvme_rules raw_data v1) (\<lambda>v2.
        bindE (ata_rules raw_data v2) (\<lambda>v3.
        bindE (temperature_rule raw_data v3) (\<lambda>v4.
        Inr (analysis_of (no_anomaly_rule v4)))))))"

section \<open>The S.M.A.R.T. collection cycle\<close>

text \<open>A discovered device: the keys \<^verbatim>\<open>path\<close> and \<^verbatim>\<open>type_args\<close> of the dict
  \<^verbatim>\<open>_get_smart_device_list\<close> makes. The path is a string, as \<^verbatim>\<open>smartctl\<close> reports it
  (an entry of a JSON scan without a \<^verbatim>\<open>name\<close> would have the path \<^verbatim>\<open>None\<close>, which the
  model leaves out). Nothing makes the paths of the list distinct.\<close>

record device_info =
  path :: pystr
  type_args :: "pystr list"

text \<open>The literal pieces of the two error messages of the fetch: ``Cannot obtain device
  '', `` 's S.M.A.R.T. information: '', ``Parsing device '' and `` 's S.M.A.R.T. JSON data
  failed.''\<close>

definition fetch_pre :: pystr where
  "fetch_pre =
     [26080, 27861, 33719, 21462, 35774, 22791, 32]"

definition fetch_mid :: pystr where
  "fetch_mid =
     [32, 30340, 83, 46, 77, 46, 65, 46, 82, 46, 84, 46, 20449, 24687, 58, 32]"

definition parse_pre :: pystr where
  "parse_pre =
     [35299, 26512, 35774, 22791, 32]"

definition parse_post :: pystr where
  "parse_post =
     [32, 30340, 83, 46, 77, 46, 65, 46, 82, 46, 84, 46, 32, 74, 83, 79, 78, 25968,
      25454, 22833, 36133, 12290]"

text \<open>\<^verbatim>\<open>json.loads\<close> is a parameter of the model: a function from the text to the value
  it returns or the exception it raises. A text that is not JSON raises
  \<^verbatim>\<open>JSONDecodeError\<close>; a text nested too deeply raises RecursionError, and a number
  with more digits than the interpreter converts raises a ValueError that is not a
  \<^verbatim>\<open>JSONDecodeError\<close>.\<close>

datatype loads_result = Loaded json | JSONDecodeError | LoadsRaised py_error

type_synonym json_parser = "pystr \<Rightarrow> loads_result"

text \<open>An exception of the cycle comes from the executor, or from \<^verbatim>\<open>json.loads\<close> or the
  analyzer.\<close>

type_synonym cycle_error = "run_exception + py_error"

text \<open>\<^verbatim>\<open>_get_raw_smart_data_for_device(self, device_info)\<close>: the payload and the error
  message, one of which is \<^verbatim>\<open>None\<close>. The \<^verbatim>\<open>except\<close> clause of line 404 names
  \<^verbatim>\<open>json.JSONDecodeError\<close> only, so any other exception of \<^verbatim>\<open>json.loads\<close> leaves the
  function.\<close>

definition get_raw_smart_data_for_device ::
  "process_runner \<Rightarrow> json_parser \<Rightarrow> device_info \<Rightarrow> cycle_error + json \<times> pystr option" where
  "get_raw_smart_data_for_device subprocess_run json_loads device_info =
     (let device_path = path device_info;
          command = [ascii ''smartctl'', ascii ''-a'', ascii ''-j''] @ type_args device_info @
                    [device_path]
      in case run_command subprocess_run command True of
           Inl e \<Rightarrow> Inl (Inl e)
         | Inr (success, output) \<Rightarrow>
             if \<not> success
             then Inr (JNull, Some (fetch_pre @ device_path @ fetch_mid @ output))
             else (case json_loads output of
                     Loaded raw \<Rightarrow> Inr (raw, None)
                   | JSONDecodeError \<Rightarrow> Inr (JNull, Some (parse_pre @ device_path @ parse_post))
                   | LoadsRaised e \<Rightarrow> Inl (Inr e)))"

text \<open>One entry of \<^verbatim>\<open>disk_info\<close>, and the report \<^verbatim>\<open>_collect_all_smart_info\<close> returns.
  \<^verbatim>\<open>disk_info\<close> is a dict: an assignment to a key it has replaces the value in place, an
  assignment to a new key adds the item at the end, which is \<open>AList.update\<close>.\<close>

record device_report =
  raw_smart_data :: json
  analysis :: SmartAnalysis

record smart_report =
  device_list :: "pystr list"
  disk_info :: "(pystr \<times> device_report) list"

text \<open>The body of the loop of \<^verbatim>\<open>_collect_all_smart_info\<close> for one device (lines 495 to
  506; the logging is left out), and the loop.\<close>

definition collect_device ::
  "('r, 's) service \<Rightarrow> process_runner \<Rightarrow> json_parser \<Rightarrow> device_info \<Rightarrow>
   (pystr \<times> device_report) list \<Rightarrow> cycle_error + (pystr \<times> device_report) list" where
  "collect_device self subprocess_run json_loads device_info disk_info_d =
     (let device_path = path device_info
      in case get_raw_smart_data_for_device subprocess_run json_loads device_info of
           Inl e \<Rightarrow> Inl e
         | Inr (raw_data, error_msg) \<Rightarrow>
             (case (if (case error_msg of None \<Rightarrow> False | Some m \<Rightarrow> m \<noteq> [])
                    then analyze_smart_data self JNull
                    else analyze_smart_data self raw_data) of
                Inl e \<Rightarrow> Inl (Inr e)
              | Inr analysis_data \<Rightarrow>
                  Inr (AList.update device_path
                         \<lparr>raw_smart_data = raw_data, analysis = analysis_data\<rparr> disk_info_d)))"

fun collect_devices ::
  "('r, 's) service \<Rightarrow> process_runner \<Rightarrow> json_parser \<Rightarrow> device_info list \<Rightarrow>
   (pystr \<times> device_report) list \<Rightarrow> cycle_error + (pystr \<times> device_report) list" where
  "collect_devices self subprocess_run json_loads [] disk_info_d = Inr disk_info_d"
| "collect_devices self subprocess_run json_loads (device_info # rest) disk_info_d =
     bindE (collect_device self subprocess_run json_loads device_info disk_info_d)
       (collect_devices self subprocess_run json_loads rest)"

text \<open>
  \<^verbatim>\<open>_collect_all_smart_info(self)\<close>. The result of \<^verbatim>\<open>_get_smart_device_list\<close> is an input
  of the model, \<open>Inl\<close> with the message when the discovery has failed and \<open>Inr\<close> with the
  devices otherwise: its fallback for a scan output that is not JSON matches a regular
  expression, which is not modelled. That fallback makes one device for every line of
  the scan, with the path and the \<^verbatim>\<open>-d\<close> argument of the line, so the list can hold
  several devices with one path (the disks behind a RAID controller, say
  \<^verbatim>\<open>/dev/bus/0 -d megaraid,0\<close> and \<^verbatim>\<open>/dev/bus/0 -d megaraid,1\<close>).
\<close>

definition collect_all_smart_info ::
  "('r, 's) service \<Rightarrow> process_runner \<Rightarrow> json_parser \<Rightarrow> pystr + device_info list \<Rightarrow>
   cycle_error + smart_report" where
  "collect_all_smart_info self subprocess_run json_loads discovered =
     (case discovered of
        Inl devices_or_msg \<Rightarrow> Inr \<lparr>device_list = [], disk_info = []\<rparr>
      | Inr devices_or_msg \<Rightarrow>
          bindE (collect_devices self subprocess_run json_loads devices_or_msg [])
            (\<lambda>disk_info_d. Inr \<lparr>device_list = map fst disk_info_d, disk_info = disk_info_d\<rparr>))"

section \<open>The read accessors, with the objects they share\<close>

text \<open>
  Whether a caller can reach the state of the store through a returned collection
  depends on which objects are shared, so the four accessors are modelled over an
  explicit object store. A value is immutable data or a reference to a container object;
  a container is a dict, a list or a deque, whose items are values again. A heap maps
  the references below \<open>next_ref\<close> to their objects.
\<close>

datatype pyval = VNone | VInt int | VStr pystr | VRef nat

datatype pyobj =
    DictObj "(pystr \<times> pyval) list"
  | ListObj "pyval list"
  | DequeObj "pyval list" "nat option"

record heap =
  objects :: "nat \<Rightarrow> pyobj option"
  next_ref :: nat

definition alloc :: "pyobj \<Rightarrow> heap \<Rightarrow> nat \<times> heap" where
  "alloc obj h =
     (next_ref h, h\<lparr>objects := (objects h)(next_ref h \<mapsto> obj), next_ref := Suc (next_ref h)\<rparr>)"

text \<open>The attributes \<^verbatim>\<open>_hardware_info\<close>, \<^verbatim>\<open>_realtime_history\<close>, \<^verbatim>\<open>_disk_usage\<close> and
  \<^verbatim>\<open>_smart_info\<close> of the service: references to three dicts and a deque.\<close>

record store_refs =
  hardware_info_ref :: nat
  realtime_history_ref :: nat
  disk_usage_ref :: nat
  smart_info_ref :: nat

text \<open>\<^verbatim>\<open>x.copy()\<close> makes a new container of the same kind with the items of \<open>x\<close>, and
  \<^verbatim>\<open>list(x)\<close> a new list with the items of a list or a deque and with the keys of a dict:
  the items themselves are not copied. A reference without an object does not occur in
  a Python program; it is an error here.\<close>

definition py_copy :: "nat \<Rightarrow> heap \<Rightarrow> py_error + nat \<times> heap" where
  "py_copy r h =
     (case objects h r of
        Some obj \<Rightarrow> Inr (alloc obj h)
      | None \<Rightarrow> Inl AttributeError)"

definition py_list :: "nat \<Rightarrow> heap \<Rightarrow> py_error + nat \<times> heap" where
  "py_list r h =
     (case objects h r of
        Some (DictObj kvs) \<Rightarrow> Inr (alloc (ListObj (map (\<lambda>kv. VStr (fst kv)) kvs)) h)
      | Some (ListObj xs) \<Rightarrow> Inr (alloc (ListObj xs) h)
      | Some (DequeObj xs n) \<Rightarrow> Inr (alloc (ListObj xs) h)
      | None \<Rightarrow> Inl TypeError)"

definition get_hardware_info :: "store_refs \<Rightarrow> heap \<Rightarrow> py_error + nat \<times> heap" where
  "get_hardware_info self h = py_copy (hardware_info_ref self) h"

definition get_realtime_history :: "store_refs \<Rightarrow> heap \<Rightarrow> py_error + nat \<times> heap" where
  "get_realtime_history self h = py_list (realtime_history_ref self) h"

definition get_disk_usage :: "store_refs \<Rightarrow> heap \<Rightarrow> py_error + nat \<times> heap" where
  "get_disk_usage self h = py_copy (disk_usage_ref self) h"

definition get_smart_info :: "store_refs \<Rightarrow> heap \<Rightarrow> py_error + nat \<times> heap" where
  "get_smart_info self h = py_copy (smart_info_ref self) h"

text \<open>
  What a caller can do to a container it holds a reference to: \<^verbatim>\<open>d[k] = v\<close>,
  \<^verbatim>\<open>del d[k]\<close>, \<^verbatim>\<open>clear()\<close>, \<^verbatim>\<open>append(v)\<close> and \<^verbatim>\<open>l[i] = v\<close>. An operation the object does
  not have, a missing key and an index out of range raise in the caller and leave the
  object as it is.
\<close>

datatype mutation =
    SetItem pystr pyval
  | DelItem pystr
  | Clear
  | Append pyval
  | SetIndex nat pyval

fun mutate_obj :: "mutation \<Rightarrow> pyobj \<Rightarrow> pyobj" where
  "mutate_obj (SetItem k v) (DictObj kvs) = DictObj (AList.update k v kvs)"
| "mutate_obj (DelItem k) (DictObj kvs) = DictObj (AList.delete k kvs)"
| "mutate_obj Clear (DictObj kvs) = DictObj []"
| "mutate_obj Clear (ListObj xs) = ListObj []"
| "mutate_obj Clear (DequeObj xs n) = DequeObj [] n"
| "mutate_obj (Append v) (ListObj xs) = ListObj (xs @ [v])"
| "mutate_obj (Append v) (DequeObj xs n) =
     DequeObj (case n of None \<Rightarrow> xs @ [v]
               | Some m \<Rightarrow> if m < length (xs @ [v]) then tl (xs @ [v]) else xs @ [v]) n"
| "mutate_obj (SetIndex i v) (ListObj xs) = (if i < length xs then ListObj (xs[i := v]) else ListObj xs)"
| "mutate_obj (SetIndex i v) (DequeObj xs n) =
     (if i < length xs then DequeObj (xs[i := v]) n else DequeObj xs n)"
| "mutate_obj m obj = obj"

definition mutate :: "nat \<Rightarrow> mutation \<Rightarrow> heap \<Rightarrow> heap" where
  "mutate r m h =
     (case objects h r of
        None \<Rightarrow> h
      | Some obj \<Rightarrow> h\<lparr>objects := (objects h)(r \<mapsto> mutate_obj m obj)\<rparr>)"

fun mutate_all :: "(nat \<times> mutation) list \<Rightarrow> heap \<Rightarrow> heap" where
  "mutate_all [] h = h"
| "mutate_all ((r, m) # ms) h = mutate_all ms (mutate r m h)"

text \<open>What a reader sees of a value: the data below it, followed through the references
  to the given depth (a heap may hold cycles).\<close>

fun view :: "nat \<Rightarrow> heap \<Rightarrow> pyval \<Rightarrow> json" where
  "view n h VNone = JNull"
| "view n h (VInt i) = JInt i"
| "view n h (VStr s) = JStr s"
| "view 0 h (VRef r) = JNull"
| "view (Suc n) h (VRef r) =
     (case objects h r of
        None \<Rightarrow> JNull
      | Some (DictObj kvs) \<Rightarrow> JObj (map (\<lambda>kv. (fst kv, view n h (snd kv))) kvs)
      | Some (ListObj xs) \<Rightarrow> JArr (map (view n h) xs)
      | Some (DequeObj xs m) \<Rightarrow> JArr (map (view n h) xs))"

chapter \<open>The properties\<close>

section \<open>The realtime history is bounded and first-in first-out\<close>

text \<open>The invariant of the history: before the first successful \<^verbatim>\<open>start\<close> it is the empty
  unbounded deque of \<^verbatim>\<open>__init__\<close> and no sampling thread lives; afterwards it is a deque
  whose bound is the quotient \<^verbatim>\<open>(retention_mins * 60) // interval\<close>, which was computed
  without an exception.\<close>

definition history_inv :: "config \<Rightarrow> ('r, 's) service \<Rightarrow> bool" where
  "history_inv cfg s =
     (case maxlen (realtime_history s) of
        None \<Rightarrow> items (realtime_history s) = [] \<and> \<not> realtime_alive s
      | Some n \<Rightarrow>
          REALTIME_COLLECTION_INTERVAL cfg \<noteq> 0 \<and>
          0 \<le> (REALTIME_RETENTION_MINUTES cfg * 60) div REALTIME_COLLECTION_INTERVAL cfg \<and>
          n = capacity cfg \<and> length (items (realtime_history s)) \<le> n)"

lemma history_inv_init: "history_inv cfg init_service"
  by (simp add: history_inv_def init_service_def deque_empty_def)

lemma history_inv_step:
  assumes "history_inv cfg s"
  shows "history_inv cfg (step cfg e s)"
proof (cases e)
  case Start
  with assms show ?thesis
    by (auto simp: history_inv_def start_def py_floordiv_def deque_maxlen_def capacity_def Let_def
             split: option.splits)
next
  case (Sample x)
  with assms show ?thesis
    by (auto simp: history_inv_def realtime_collect_def deque_append_def Let_def
             split: option.splits)
next
  case Stop
  with assms show ?thesis
    by (auto simp: history_inv_def stop_def split: option.splits)
qed

lemma history_inv_run: "history_inv cfg s \<Longrightarrow> history_inv cfg (run cfg es s)"
  unfolding run_def
  by (induction es arbitrary: s) (simp_all add: history_inv_step)

text \<open>
  Claim C1. For every configured retention \<open>R\<close> (minutes) and interval \<open>I\<close> (seconds), and
  whatever sequence of starts, samples and stops the service goes through, the history
  never holds more than \<open>floor (R * 60 / I)\<close> samples. While the sampling thread lives the
  quotient is well defined (\<open>I\<close> is not 0, the quotient is not negative), and appending a
  sample to a history that is not full adds it at the end, while appending to a full
  history drops the oldest sample of the sequence and keeps the others in their order.
\<close>

theorem realtime_history_bounded_fifo:
  fixes cfg :: config and es :: "'s event list"
  defines "s \<equiv> (run cfg es init_service :: ('r, 's) service)"
  defines "h \<equiv> items (realtime_history s)"
  shows "length h \<le> capacity cfg \<and>
         (realtime_alive s \<longrightarrow>
            REALTIME_COLLECTION_INTERVAL cfg \<noteq> 0 \<and>
            int (length h) \<le>
              (REALTIME_RETENTION_MINUTES cfg * 60) div REALTIME_COLLECTION_INTERVAL cfg \<and>
            (\<forall>x. items (realtime_history (realtime_collect x s)) =
                  (if length h < capacity cfg then h @ [x] else tl (h @ [x]))))"
proof -
  have inv: "history_inv cfg s"
    unfolding s_def by (rule history_inv_run [OF history_inv_init])
  show ?thesis
  proof (cases "maxlen (realtime_history s)")
    case None
    with inv show ?thesis
      by (simp add: history_inv_def h_def)
  next
    case (Some n)
    with inv have n: "n = capacity cfg" and len: "length h \<le> n"
      and i0: "REALTIME_COLLECTION_INTERVAL cfg \<noteq> 0"
      and nonneg: "0 \<le> (REALTIME_RETENTION_MINUTES cfg * 60) div REALTIME_COLLECTION_INTERVAL cfg"
      by (simp_all add: history_inv_def h_def)
    have "int (length h) \<le>
            (REALTIME_RETENTION_MINUTES cfg * 60) div REALTIME_COLLECTION_INTERVAL cfg"
      using len n nonneg by (simp add: capacity_def)
    moreover have "realtime_alive s \<Longrightarrow>
        items (realtime_history (realtime_collect x s)) =
          (if length h < capacity cfg then h @ [x] else tl (h @ [x]))" for x
      using Some n len by (auto simp: realtime_collect_def deque_append_def Let_def h_def)
    ultimately show ?thesis using len n i0 by simp
  qed
qed

text \<open>A run with one minute of retention at an interval of 30 seconds: the capacity is 2,
  three samples leave the last two, and a fourth sample evicts the second.\<close>

definition cfg_1min_30s :: config where
  "cfg_1min_30s =
     \<lparr>REALTIME_COLLECTION_INTERVAL = 30, REALTIME_RETENTION_MINUTES = 1, DISK_USAGE_PATHS = []\<rparr>"

definition three_samples :: "(unit, nat) service" where
  "three_samples = run cfg_1min_30s [Start, Sample 1, Sample 2, Sample 3] init_service"

lemma three_samples_eval:
  "realtime_alive three_samples" "items (realtime_history three_samples) = [2, 3]"
  by (simp_all add: three_samples_def run_def cfg_1min_30s_def start_def init_service_def
        deque_empty_def py_floordiv_def deque_maxlen_def realtime_collect_def deque_append_def
        Let_def)

theorem realtime_history_bounded_fifo_witness:
  "realtime_alive three_samples \<and>
   items (realtime_history three_samples) = [2, 3] \<and>
   length (items (realtime_history three_samples)) \<le> capacity cfg_1min_30s \<and>
   items (realtime_history (realtime_collect 4 three_samples)) = [3, 4]"
proof -
  have cap: "capacity cfg_1min_30s = 2"
    by (simp add: capacity_def cfg_1min_30s_def)
  note inst = realtime_history_bounded_fifo
    [where ?'r = unit and ?'s = nat and cfg = cfg_1min_30s
       and es = "[Start, Sample 1, Sample 2, Sample 3]", folded three_samples_def]
  from inst have bound: "length (items (realtime_history three_samples)) \<le> capacity cfg_1min_30s"
    by blast
  from inst three_samples_eval(1)
  have "items (realtime_history (realtime_collect 4 three_samples)) =
          (if length (items (realtime_history three_samples)) < capacity cfg_1min_30s
           then items (realtime_history three_samples) @ [4]
           else tl (items (realtime_history three_samples) @ [4]))"
    by blast
  then have "items (realtime_history (realtime_collect 4 three_samples)) = [3, 4]"
    by (simp add: three_samples_eval(2) cap)
  with bound three_samples_eval show ?thesis by simp
qed

section \<open>Sequencing\<close>

lemma bindE_Inr [simp]: "bindE (Inr x) f = f x"
  by (simp add: bindE_def)

lemma bindE_Inl [simp]: "bindE (Inl e) f = Inl e"
  by (simp add: bindE_def)

lemma bindE_eq_Inr: "bindE m f = Inr y \<longleftrightarrow> (\<exists>x. m = Inr x \<and> f x = Inr y)"
  by (cases m) simp_all

section \<open>Severity only escalates\<close>

text \<open>The rules of the analyzer as data, each with the part of the payload it reads, so
  that they can be fired in any order and any number of times.\<close>

datatype rule =
    SelfTest json
  | NvmeCritical json
  | NvmeLife json
  | AtaAttr json
  | Temperature json
  | NoAnomaly

fun fire :: "rule \<Rightarrow> pass_vars \<Rightarrow> py_error + pass_vars" where
  "fire (SelfTest raw_data) v = selftest_rule raw_data v"
| "fire (NvmeCritical nvme_log) v = nvme_critical_rule nvme_log v"
| "fire (NvmeLife nvme_log) v = nvme_life_rule nvme_log v"
| "fire (AtaAttr attr) v = ata_attr_rule attr v"
| "fire (Temperature raw_data) v = temperature_rule raw_data v"
| "fire NoAnomaly v = Inr (no_anomaly_rule v)"

fun fire_all :: "rule list \<Rightarrow> pass_vars \<Rightarrow> py_error + pass_vars" where
  "fire_all [] v = Inr v"
| "fire_all (r # rs) v = bindE (fire r v) (fire_all rs)"

definition escalated :: "HealthStatus \<Rightarrow> HealthStatus \<Rightarrow> bool" where
  "escalated s s' = (s' = s \<or> s' = FAILED \<or> (s = HEALTHY \<and> s' = WARNING))"

lemma escalated_refl: "escalated s s"
  by (simp add: escalated_def)

lemma escalated_trans: "escalated a b \<Longrightarrow> escalated b c \<Longrightarrow> escalated a c"
  by (auto simp: escalated_def)

lemma selftest_rule_status: "selftest_rule raw v = Inr v' \<Longrightarrow> escalated (status v) (status v')"
  by (auto simp: selftest_rule_def bindE_eq_Inr escalated_def split: if_splits)

lemma nvme_critical_rule_status:
  "nvme_critical_rule l v = Inr v' \<Longrightarrow> escalated (status v) (status v')"
  by (auto simp: nvme_critical_rule_def bindE_eq_Inr escalated_def split: if_splits)

lemma nvme_life_rule_status:
  "nvme_life_rule l v = Inr v' \<Longrightarrow> escalated (status v) (status v')"
  by (auto simp: nvme_life_rule_def bindE_eq_Inr escalated_def warn_def split: if_splits)

lemma record_attr_status: "escalated (status v) (status (record_attr r v))"
  by (simp add: record_attr_def escalated_def warn_def)

lemma ata_attr_rule_status:
  "ata_attr_rule a v = Inr v' \<Longrightarrow> escalated (status v) (status v')"
  by (auto simp: ata_attr_rule_def bindE_eq_Inr record_attr_status escalated_refl
           split: option.splits)

lemma temperature_rule_status:
  "temperature_rule raw v = Inr v' \<Longrightarrow> escalated (status v) (status v')"
  by (auto simp: temperature_rule_def bindE_eq_Inr escalated_def warn_def split: if_splits)

lemma no_anomaly_rule_status [simp]: "status (no_anomaly_rule v) = status v"
  by (simp add: no_anomaly_rule_def)

lemma fire_status: "fire r v = Inr v' \<Longrightarrow> escalated (status v) (status v')"
  by (cases r)
     (auto dest: selftest_rule_status nvme_critical_rule_status nvme_life_rule_status
        ata_attr_rule_status temperature_rule_status simp: escalated_refl)

lemma fire_all_status: "fire_all rs v = Inr v' \<Longrightarrow> escalated (status v) (status v')"
proof (induction rs arbitrary: v)
  case Nil
  then show ?case by (simp add: escalated_refl)
next
  case (Cons r rs)
  from Cons.prems obtain v1 where 1: "fire r v = Inr v1" and 2: "fire_all rs v1 = Inr v'"
    by (auto simp: bindE_eq_Inr)
  from fire_status [OF 1] Cons.IH [OF 2] show ?case
    by (rule escalated_trans)
qed

text \<open>
  Claim C2. Whatever rules fire after a point of the pass, in whatever order and on
  whatever payload, the status they leave is the status at that point, or FAILED, or
  WARNING where it was HEALTHY. So once the status is FAILED it stays FAILED, and once it
  is WARNING it does not become HEALTHY again.
\<close>

theorem escalation_one_directional:
  assumes "fire_all rs v = Inr v'"
  shows "(status v' = status v \<or> status v' = FAILED \<or>
          (status v = HEALTHY \<and> status v' = WARNING))
         \<and> (status v = FAILED \<longrightarrow> status v' = FAILED)
         \<and> (status v = WARNING \<longrightarrow> status v' \<noteq> HEALTHY)"
  using fire_all_status [OF assms] by (auto simp: escalated_def)

text \<open>The pass of \<^verbatim>\<open>_analyze_smart_data\<close> on a payload that is not empty is such a
  sequence of rules, fired from the initial variables.\<close>

lemma fire_all_append:
  "fire_all (rs @ rs') v = bindE (fire_all rs v) (fire_all rs')"
  by (induction rs arbitrary: v) (auto simp: bindE_def split: sum.splits)

lemma ata_loop_fire: "ata_loop attrs v = fire_all (map AtaAttr attrs) v"
  by (induction attrs arbitrary: v) (auto simp: bindE_def split: sum.splits)

lemma nvme_rules_fire:
  assumes "nvme_rules raw v = Inr v'"
  shows "\<exists>rs. fire_all rs v = Inr v'"
proof (cases "py_in (ascii ''nvme_smart_health_information_log'') raw = Inr True")
  case True
  with assms obtain l where "fire_all [NvmeCritical l, NvmeLife l] v = Inr v'"
    by (auto simp: nvme_rules_def bindE_eq_Inr)
  then show ?thesis ..
next
  case False
  with assms have "fire_all [] v = Inr v'"
    by (auto simp: nvme_rules_def bindE_eq_Inr split: if_splits)
  then show ?thesis ..
qed

lemma ata_rules_fire:
  assumes "ata_rules raw v = Inr v'"
  shows "\<exists>rs. fire_all rs v = Inr v'"
proof (cases "py_in (ascii ''ata_smart_attributes'') raw = Inr True")
  case True
  with assms obtain attrs where "fire_all (map AtaAttr attrs) v = Inr v'"
    by (auto simp: ata_rules_def bindE_eq_Inr ata_loop_fire)
  then show ?thesis ..
next
  case False
  with assms have "fire_all [] v = Inr v'"
    by (auto simp: ata_rules_def bindE_eq_Inr split: if_splits)
  then show ?thesis ..
qed

lemma analyze_stages:
  assumes "analyze_smart_data self raw = Inr res" and "truthy raw"
  obtains v1 v2 v3 v4 where
    "selftest_rule raw initial_vars = Inr v1" "nvme_rules raw v1 = Inr v2"
    "ata_rules raw v2 = Inr v3" "temperature_rule raw v3 = Inr v4"
    "res = analysis_of (no_anomaly_rule v4)"
  using assms by (auto simp: analyze_smart_data_def bindE_eq_Inr)

lemma analyze_fires_rules:
  assumes "analyze_smart_data self raw = Inr res" and "truthy raw"
  shows "\<exists>rs v. fire_all rs initial_vars = Inr v \<and> res = analysis_of v"
proof -
  from assms obtain v1 v2 v3 v4 where
    1: "selftest_rule raw initial_vars = Inr v1" and
    2: "nvme_rules raw v1 = Inr v2" and
    3: "ata_rules raw v2 = Inr v3" and
    4: "temperature_rule raw v3 = Inr v4" and
    res: "res = analysis_of (no_anomaly_rule v4)"
    by (rule analyze_stages)
  from nvme_rules_fire [OF 2] obtain rs2 where rs2: "fire_all rs2 v1 = Inr v2" ..
  from ata_rules_fire [OF 3] obtain rs3 where rs3: "fire_all rs3 v2 = Inr v3" ..
  have "fire_all ([SelfTest raw] @ rs2 @ rs3 @ [Temperature raw, NoAnomaly]) initial_vars =
          Inr (no_anomaly_rule v4)"
    using 1 rs2 rs3 4 by (simp add: fire_all_append)
  with res show ?thesis by blast
qed

text \<open>In particular the status a pass returns is FAILED once any of its rules has set
  FAILED.\<close>

lemma analysis_keeps_failed:
  assumes "analyze_smart_data self raw = Inr res" and "truthy raw"
    and "selftest_rule raw initial_vars = Inr v1" and "status v1 = FAILED"
  shows "health_status res = status_name FAILED"
proof -
  from assms(1,2) obtain v1' v2 v3 v4 where
    1: "selftest_rule raw initial_vars = Inr v1'" and
    2: "nvme_rules raw v1' = Inr v2" and
    3: "ata_rules raw v2 = Inr v3" and
    4: "temperature_rule raw v3 = Inr v4" and
    res: "res = analysis_of (no_anomaly_rule v4)"
    by (rule analyze_stages)
  from 1 assms(3,4) have "status v1' = FAILED" by simp
  moreover from nvme_rules_fire [OF 2] obtain rs2 where "fire_all rs2 v1' = Inr v2" ..
  ultimately have "status v2 = FAILED"
    by (auto dest: fire_all_status simp: escalated_def)
  moreover from ata_rules_fire [OF 3] obtain rs3 where "fire_all rs3 v2 = Inr v3" ..
  ultimately have "status v3 = FAILED"
    by (auto dest: fire_all_status simp: escalated_def)
  with temperature_rule_status [OF 4] have "status v4 = FAILED"
    by (simp add: escalated_def)
  with res show ?thesis by (simp add: analysis_of_def)
qed

text \<open>Two rules fired against the order of the source, on a status that is already
  FAILED: a temperature of 60 and an NVMe log with 90 percent of the life used add their
  lines and leave FAILED.\<close>

definition hot_payload :: json where
  "hot_payload = JObj [(ascii ''temperature'', JObj [(ascii ''current'', JInt 60)])]"

definition worn_log :: json where
  "worn_log = JObj [(ascii ''percentage_used'', JInt 90), (ascii ''critical_warning'', JInt 0)]"

lemma fire_hot_worn:
  "fire_all [Temperature hot_payload, NvmeLife worn_log] (initial_vars\<lparr>status := FAILED\<rparr>) =
     Inr \<lparr>status = FAILED,
          summary_v = [temp_pre @ py_str_int 60 @ temp_post, life_pre @ py_str_int 90 @ life_post],
          recommendations_v = [rec_cooling, rec_replace_ssd],
          critical_attributes_v = []\<rparr>"
  by (simp add: hot_payload_def worn_log_def temperature_rule_def nvme_life_rule_def
        initial_vars_def warn_def ascii_def)

theorem escalation_one_directional_witness:
  "fire_all [Temperature hot_payload, NvmeLife worn_log] (initial_vars\<lparr>status := FAILED\<rparr>) =
     Inr \<lparr>status = FAILED,
          summary_v = [temp_pre @ py_str_int 60 @ temp_post, life_pre @ py_str_int 90 @ life_post],
          recommendations_v = [rec_cooling, rec_replace_ssd],
          critical_attributes_v = []\<rparr>
   \<and> status \<lparr>status = FAILED,
          summary_v = [temp_pre @ py_str_int 60 @ temp_post, life_pre @ py_str_int 90 @ life_post],
          recommendations_v = [rec_cooling, rec_replace_ssd],
          critical_attributes_v = []\<rparr> = FAILED"
  using escalation_one_directional [OF fire_hot_worn] fire_hot_worn
  by (simp add: initial_vars_def)

section \<open>The analysis is a function of the payload alone\<close>

text \<open>
  Claim C3. \<^verbatim>\<open>_analyze_smart_data\<close> takes the service object and the payload. Its result,
  a SmartAnalysis or an exception, is the same whatever the state of the service is
  (the stored reports, the history, the configuration), so two calls on equal payloads
  give equal results: the same status, summary lines, findings and recommendations.
\<close>

theorem analysis_depends_on_payload_only:
  fixes self :: "('r, 's) service" and self' :: "('r2, 's2) service"
  shows "analyze_smart_data self raw_data = analyze_smart_data self' raw_data"
  by (simp add: analyze_smart_data_def)

section \<open>What one analysis pass does\<close>

text \<open>Readings of a payload, written with the expressions of the source.
  \<open>reports_passed\<close>: the overall self-test indicator reports passed, that is,
  \<^verbatim>\<open>raw_data.get("smart_status", {}).get("passed", False)\<close> is evaluated without an
  exception and is true. \<open>nvme_critical\<close>: the payload has an NVMe health log whose
  \<^verbatim>\<open>critical_warning\<close> is above 0. \<open>alarming\<close>: the reading of an attribute of the ATA
  table if it is a critical attribute whose raw value is above 0; \<open>alarms\<close> collects
  these readings over the table, in its order.\<close>

definition reports_passed :: "json \<Rightarrow> bool" where
  "reports_passed raw_data =
     (case py_get raw_data (ascii ''smart_status'') (JObj []) of
        Inl e \<Rightarrow> False
      | Inr smart_status \<Rightarrow>
          (case py_get smart_status (ascii ''passed'') (JBool False) of
             Inl e \<Rightarrow> False
           | Inr passed \<Rightarrow> truthy passed))"

definition alarming :: "json \<Rightarrow> attr_reading option" where
  "alarming attr =
     (case read_attr attr of
        Inr (Some rd) \<Rightarrow> if check_raw rd \<and> 0 < raw_value rd then Some rd else None
      | _ \<Rightarrow> None)"

fun alarms :: "json list \<Rightarrow> attr_reading list" where
  "alarms [] = []"
| "alarms (attr # attrs) =
     (case alarming attr of None \<Rightarrow> alarms attrs | Some rd \<Rightarrow> rd # alarms attrs)"

definition nvme_critical :: "json \<Rightarrow> bool" where
  "nvme_critical raw_data =
     (case py_index raw_data (ascii ''nvme_smart_health_information_log'') of
        Inl e \<Rightarrow> False
      | Inr nvme_log \<Rightarrow>
          (case py_get nvme_log (ascii ''critical_warning'') (JInt 0) of
             Inl e \<Rightarrow> False
           | Inr critical_warning \<Rightarrow>
               (case py_gt critical_warning 0 of Inl e \<Rightarrow> False | Inr positive \<Rightarrow> positive)))"

text \<open>The status moves \<open>softly\<close> when it stays or goes from HEALTHY to WARNING; the
  variables \<open>grow\<close> when the three lists are only appended to.\<close>

definition softly :: "HealthStatus \<Rightarrow> HealthStatus \<Rightarrow> bool" where
  "softly s s' = (s' = s \<or> (s = HEALTHY \<and> s' = WARNING))"

definition grows :: "pass_vars \<Rightarrow> pass_vars \<Rightarrow> bool" where
  "grows v v' =
     (prefix (summary_v v) (summary_v v') \<and>
      prefix (recommendations_v v) (recommendations_v v') \<and>
      prefix (critical_attributes_v v) (critical_attributes_v v'))"

definition add_alarms :: "attr_reading list \<Rightarrow> pass_vars \<Rightarrow> pass_vars" where
  "add_alarms rds v =
     v\<lparr>status := (if rds = [] then status v else warn (status v)),
       summary_v := summary_v v @ map attr_line rds,
       recommendations_v := recommendations_v v @ map attr_recommendation rds,
       critical_attributes_v := critical_attributes_v v @ map attr_finding rds\<rparr>"

lemma warn_idem [simp]: "warn (warn s) = warn s"
  by (simp add: warn_def)

lemma selftest_rule_effect:
  assumes "selftest_rule raw v = Inr v'"
  shows "v' = (if reports_passed raw
               then v\<lparr>summary_v := summary_v v @ [msg_selftest_passed]\<rparr>
               else v\<lparr>status := FAILED,
                      summary_v := summary_v v @ [msg_selftest_failed],
                      recommendations_v := recommendations_v v @ [rec_backup_replace]\<rparr>)"
  using assms
  by (auto simp: selftest_rule_def reports_passed_def bindE_eq_Inr split: if_splits)

lemma add_alarms_Nil [simp]: "add_alarms [] v = v"
  by (simp add: add_alarms_def)

lemma ata_attr_rule_effect:
  assumes "ata_attr_rule a v = Inr v'"
  shows "v' = (case alarming a of None \<Rightarrow> v | Some rd \<Rightarrow> add_alarms [rd] v)"
  using assms
  by (auto simp: ata_attr_rule_def alarming_def record_attr_def add_alarms_def bindE_eq_Inr
           split: option.splits if_splits)

lemma add_alarms_Cons: "add_alarms rds (add_alarms [rd] v) = add_alarms (rd # rds) v"
  by (simp add: add_alarms_def)

lemma ata_loop_effect: "ata_loop attrs v = Inr v' \<Longrightarrow> v' = add_alarms (alarms attrs) v"
proof (induction attrs arbitrary: v)
  case Nil
  then show ?case by simp
next
  case (Cons a attrs)
  from Cons.prems obtain v1 where 1: "ata_attr_rule a v = Inr v1" and 2: "ata_loop attrs v1 = Inr v'"
    by (auto simp: bindE_eq_Inr)
  from Cons.IH [OF 2] ata_attr_rule_effect [OF 1] show ?case
    by (auto simp: add_alarms_Cons split: option.splits)
qed

lemma softly_refl: "softly s s" by (simp add: softly_def)
lemma softly_trans: "softly a b \<Longrightarrow> softly b c \<Longrightarrow> softly a c" by (auto simp: softly_def)
lemma softly_warn: "softly s (warn s)" by (simp add: softly_def warn_def)

lemma py_index_Inr: "py_index x k = Inr y \<longleftrightarrow> (\<exists>kvs. x = JObj kvs \<and> map_of kvs k = Some y)"
  by (cases x) (auto split: option.splits)

lemma py_in_of_index: "py_index x k = Inr y \<Longrightarrow> py_in k x = Inr True"
  by (auto simp: py_index_Inr)

lemma py_in_True_index: "py_in k (JObj kvs) = Inr True \<Longrightarrow> \<exists>y. py_index (JObj kvs) k = Inr y"
  by auto

lemma nvme_rules_present:
  assumes "nvme_rules raw v = Inr v'" and "py_index raw (ascii ''nvme_smart_health_information_log'') = Inr l"
  obtains v1 where "nvme_critical_rule l v = Inr v1" "nvme_life_rule l v1 = Inr v'"
  using assms py_in_of_index [OF assms(2)]
  by (auto simp: nvme_rules_def bindE_eq_Inr)

lemma nvme_life_rule_soft: "nvme_life_rule l v = Inr v' \<Longrightarrow> softly (status v) (status v')"
  by (auto simp: nvme_life_rule_def bindE_eq_Inr softly_def warn_def split: if_splits)

lemma nvme_rules_soft:
  assumes "nvme_rules raw v = Inr v'" and "\<not> nvme_critical raw"
  shows "softly (status v) (status v')"
proof (cases "py_in (ascii ''nvme_smart_health_information_log'') raw = Inr True")
  case True
  with assms(1) obtain l v1 where l: "py_index raw (ascii ''nvme_smart_health_information_log'') = Inr l"
    and 1: "nvme_critical_rule l v = Inr v1" and 2: "nvme_life_rule l v1 = Inr v'"
    by (auto simp: nvme_rules_def bindE_eq_Inr)
  from 1 assms(2) l have "v1 = v"
    by (auto simp: nvme_critical_rule_def nvme_critical_def bindE_eq_Inr split: if_splits)
  with nvme_life_rule_soft [OF 2] show ?thesis by simp
next
  case False
  with assms(1) show ?thesis
    by (auto simp: nvme_rules_def bindE_eq_Inr softly_refl split: if_splits)
qed

lemma ata_rules_effect:
  assumes "ata_rules raw v = Inr v'"
  shows "v' = (case py_index raw (ascii ''ata_smart_attributes'') of
                 Inl e \<Rightarrow> v
               | Inr ata \<Rightarrow>
                  (case py_index ata (ascii ''table'') of Inl e \<Rightarrow> v
                   | Inr table \<Rightarrow> (case py_iter table of Inl e \<Rightarrow> v
                       | Inr attrs \<Rightarrow> add_alarms (alarms attrs) v)))"
proof (cases "py_in (ascii ''ata_smart_attributes'') raw = Inr True")
  case True
  with assms show ?thesis
    by (auto simp: ata_rules_def bindE_eq_Inr dest: ata_loop_effect)
next
  case False
  with assms have v: "v' = v" and "py_in (ascii ''ata_smart_attributes'') raw = Inr False"
    by (auto simp: ata_rules_def bindE_eq_Inr split: if_splits)
  then have "\<And>y. py_index raw (ascii ''ata_smart_attributes'') \<noteq> Inr y"
    by (auto dest: py_in_of_index)
  with v show ?thesis by (auto split: sum.splits)
qed

lemma add_alarms_soft: "softly (status v) (status (add_alarms rds v))"
  by (simp add: add_alarms_def softly_def warn_def)

lemma ata_rules_soft:
  assumes "ata_rules raw v = Inr v'"
  shows "softly (status v) (status v')"
  unfolding ata_rules_effect [OF assms]
  by (auto split: sum.splits simp: softly_refl add_alarms_soft)

lemma temperature_rule_soft: "temperature_rule raw v = Inr v' \<Longrightarrow> softly (status v) (status v')"
  by (auto simp: temperature_rule_def bindE_eq_Inr softly_def warn_def split: if_splits)

lemma nvme_rules_status: "nvme_rules raw v = Inr v' \<Longrightarrow> escalated (status v) (status v')"
  using nvme_rules_fire fire_all_status by blast

lemma ata_rules_status: "ata_rules raw v = Inr v' \<Longrightarrow> escalated (status v) (status v')"
  using ata_rules_fire fire_all_status by blast

lemma status_name_inj: "status_name s = status_name s' \<longleftrightarrow> s = s'"
  by (cases s; cases s') (simp_all add: ascii_def)

lemma grows_refl: "grows v v"
  by (simp add: grows_def)

lemma grows_trans: "grows a b \<Longrightarrow> grows b c \<Longrightarrow> grows a c"
  by (auto simp: grows_def intro: prefix_order.trans)

lemma fire_grows: "fire r v = Inr v' \<Longrightarrow> grows v v'"
proof (cases r)
  case (AtaAttr a)
  assume "fire r v = Inr v'"
  with AtaAttr have "ata_attr_rule a v = Inr v'" by simp
  from ata_attr_rule_effect [OF this] show ?thesis
    by (auto simp: grows_def add_alarms_def split: option.splits)
qed (auto simp: grows_def selftest_rule_def nvme_critical_rule_def nvme_life_rule_def
       temperature_rule_def no_anomaly_rule_def bindE_eq_Inr split: if_splits)

lemma fire_all_grows: "fire_all rs v = Inr v' \<Longrightarrow> grows v v'"
proof (induction rs arbitrary: v)
  case Nil
  then show ?case by (simp add: grows_refl)
next
  case (Cons r rs)
  from Cons.prems obtain v1 where 1: "fire r v = Inr v1" and 2: "fire_all rs v1 = Inr v'"
    by (auto simp: bindE_eq_Inr)
  from fire_grows [OF 1] Cons.IH [OF 2] show ?case by (rule grows_trans)
qed

lemma nvme_rules_grows: "nvme_rules raw v = Inr v' \<Longrightarrow> grows v v'"
  using nvme_rules_fire fire_all_grows by blast

lemma ata_rules_grows: "ata_rules raw v = Inr v' \<Longrightarrow> grows v v'"
  using ata_rules_fire fire_all_grows by blast

lemma temperature_rule_grows: "temperature_rule raw v = Inr v' \<Longrightarrow> grows v v'"
  using fire_grows [of "Temperature raw"] by simp

lemma no_anomaly_rule_grows: "grows v (no_anomaly_rule v)"
  using fire_grows [of NoAnomaly] by simp

lemma nvme_rules_crit:
  "nvme_rules raw v = Inr v' \<Longrightarrow> critical_attributes_v v' = critical_attributes_v v"
  by (auto simp: nvme_rules_def nvme_critical_rule_def nvme_life_rule_def bindE_eq_Inr
           split: if_splits)

lemma temperature_rule_crit:
  "temperature_rule raw v = Inr v' \<Longrightarrow> critical_attributes_v v' = critical_attributes_v v"
  by (auto simp: temperature_rule_def bindE_eq_Inr split: if_splits)

lemma no_anomaly_rule_crit [simp]:
  "critical_attributes_v (no_anomaly_rule v) = critical_attributes_v v"
  by (simp add: no_anomaly_rule_def)

lemma grows_summary_mem: "grows v v' \<Longrightarrow> x \<in> set (summary_v v) \<Longrightarrow> x \<in> set (summary_v v')"
  by (auto simp: grows_def dest: set_mono_prefix)

lemma grows_recs_mem:
  "grows v v' \<Longrightarrow> x \<in> set (recommendations_v v) \<Longrightarrow> x \<in> set (recommendations_v v')"
  by (auto simp: grows_def dest: set_mono_prefix)

lemma prefix_sublist_append: "prefix (xs @ ys) zs \<Longrightarrow> sublist ys zs"
  by (auto simp: prefix_def sublist_def)

lemma analysis_fields:
  "summary (analysis_of v) = summary_v v"
  "recommendations (analysis_of v) = recommendations_v v"
  "critical_attributes (analysis_of v) = critical_attributes_v v"
  "health_status (analysis_of v) = status_name (status v)"
  by (simp_all add: analysis_of_def)

lemma analysis_life_line:
  assumes "analyze_smart_data self raw_data = Inr res"
    and l: "py_index raw_data (ascii ''nvme_smart_health_information_log'') = Inr l"
    and pu: "py_get l (ascii ''percentage_used'') (JInt 0) = Inr pu"
    and worn: "py_gt pu 85 = Inr True"
  shows "life_pre @ py_format pu @ life_post \<in> set (summary res) \<and>
         rec_replace_ssd \<in> set (recommendations res)"
proof -
  from l have "truthy raw_data" by (auto simp: py_index_Inr)
  with assms(1) obtain v1 v2 v3 v4 where
    2: "nvme_rules raw_data v1 = Inr v2" and
    3: "ata_rules raw_data v2 = Inr v3" and
    4: "temperature_rule raw_data v3 = Inr v4" and
    res: "res = analysis_of (no_anomaly_rule v4)"
    by (rule analyze_stages)
  have "grows v3 (no_anomaly_rule v4)"
    using temperature_rule_grows [OF 4] no_anomaly_rule_grows by (rule grows_trans)
  with ata_rules_grows [OF 3] have g: "grows v2 (no_anomaly_rule v4)" by (rule grows_trans)
  from 2 l obtain v1' where "nvme_life_rule l v1' = Inr v2"
    by (rule nvme_rules_present)
  with pu worn have "life_pre @ py_format pu @ life_post \<in> set (summary_v v2)"
    "rec_replace_ssd \<in> set (recommendations_v v2)"
    by (auto simp: nvme_life_rule_def)
  with g show ?thesis
    by (simp add: res analysis_fields grows_summary_mem grows_recs_mem)
qed

lemma analysis_alarms:
  assumes "analyze_smart_data self raw_data = Inr res"
    and a: "py_index raw_data (ascii ''ata_smart_attributes'') = Inr a"
    and t: "py_index a (ascii ''table'') = Inr t"
    and attrs: "py_iter t = Inr attrs"
  shows "critical_attributes res = map attr_finding (alarms attrs) \<and>
         sublist (map attr_line (alarms attrs)) (summary res) \<and>
         sublist (map attr_recommendation (alarms attrs)) (recommendations res)"
proof -
  from a have "truthy raw_data" by (auto simp: py_index_Inr)
  with assms(1) obtain v1 v2 v3 v4 where
    1: "selftest_rule raw_data initial_vars = Inr v1" and
    2: "nvme_rules raw_data v1 = Inr v2" and
    3: "ata_rules raw_data v2 = Inr v3" and
    4: "temperature_rule raw_data v3 = Inr v4" and
    res: "res = analysis_of (no_anomaly_rule v4)"
    by (rule analyze_stages)
  have g: "grows v3 (no_anomaly_rule v4)"
    using temperature_rule_grows [OF 4] no_anomaly_rule_grows by (rule grows_trans)
  from ata_rules_effect [OF 3] a t attrs have v3: "v3 = add_alarms (alarms attrs) v2"
    by simp
  have "critical_attributes_v v2 = []"
    using selftest_rule_effect [OF 1] nvme_rules_crit [OF 2]
    by (simp add: initial_vars_def split: if_splits)
  with v3 temperature_rule_crit [OF 4]
  have "critical_attributes res = map attr_finding (alarms attrs)"
    by (simp add: res analysis_fields add_alarms_def)
  moreover from g v3 have "sublist (map attr_line (alarms attrs)) (summary res)"
    "sublist (map attr_recommendation (alarms attrs)) (recommendations res)"
    by (auto simp: grows_def add_alarms_def res analysis_fields dest: prefix_sublist_append)
  ultimately show ?thesis by simp
qed

lemma analysis_temperature_line:
  assumes "analyze_smart_data self raw_data = Inr res"
    and t: "py_get raw_data (ascii ''temperature'') (JObj []) = Inr t"
    and temp: "py_get t (ascii ''current'') JNull = Inr temp" "temp \<noteq> JNull"
    and hot: "py_gt temp 55 = Inr True"
  shows "temp_pre @ py_format temp @ temp_post \<in> set (summary res) \<and>
         rec_cooling \<in> set (recommendations res)"
proof -
  have "truthy raw_data"
  proof (rule ccontr)
    assume "\<not> truthy raw_data"
    with t have "t = JObj []" by (cases raw_data) simp_all
    with temp show False by simp
  qed
  with assms(1) obtain v3 v4 where
    4: "temperature_rule raw_data v3 = Inr v4" and
    res: "res = analysis_of (no_anomaly_rule v4)"
    by (rule analyze_stages)
  from 4 t temp hot have "temp_pre @ py_format temp @ temp_post \<in> set (summary_v v4)"
    "rec_cooling \<in> set (recommendations_v v4)"
    by (auto simp: temperature_rule_def)
  with no_anomaly_rule_grows [of v4] show ?thesis
    by (simp add: res analysis_fields grows_summary_mem grows_recs_mem)
qed

lemma softly_WARNING: "softly WARNING s \<Longrightarrow> s = WARNING"
  by (simp add: softly_def)

lemma reports_passed_truthy: "reports_passed raw \<Longrightarrow> truthy raw"
  by (cases raw) (auto simp: reports_passed_def)

lemma alarms_mem: "rd \<in> set (alarms attrs) \<Longrightarrow> \<exists>a \<in> set attrs. alarming a = Some rd"
  by (induction attrs) (auto split: option.splits)

lemma alarming_Some:
  "alarming a = Some rd \<Longrightarrow> read_attr a = Inr (Some rd) \<and> check_raw rd \<and> 0 < raw_value rd"
  by (auto simp: alarming_def split: sum.splits option.splits if_splits)

lemma read_attr_id_5:
  assumes "read_attr a = Inr (Some rd)" and "attr_id rd = JInt 5"
  shows "name rd = ascii ''Reallocated_Sector_Ct'' \<and> desc rd = desc_5"
proof -
  from assms(1) obtain i key e where i: "py_index a (ascii ''id'') = Inr i"
    and key: "py_int_key i = Inr key"
    and e: "(case key of None \<Rightarrow> None | Some k \<Rightarrow> map_of CRITICAL_ATA_ATTRIBUTES k) = Some e"
    and rd: "attr_id rd = i" "name rd = fst e" "desc rd = fst (snd e)"
    by (auto simp: read_attr_def bindE_eq_Inr split: option.splits)
  from rd(1) assms(2) key have "key = Some 5" by auto
  with e have "e = (ascii ''Reallocated_Sector_Ct'', desc_5, True)"
    by (simp add: CRITICAL_ATA_ATTRIBUTES_def)
  with rd show ?thesis by simp
qed


text \<open>Payloads for the examples: a passed self-test, a temperature, an attribute of the ATA
  table with its id and raw value (normalized 100, worst 99, threshold 10), the table,
  and the reading the analyzer takes of such an attribute.\<close>

definition fresh_service :: "(unit, unit) service" where
  "fresh_service = init_service"

definition passed_status :: "pystr \<times> json" where
  "passed_status = (ascii ''smart_status'', JObj [(ascii ''passed'', JBool True)])"

definition temperature_of :: "int \<Rightarrow> pystr \<times> json" where
  "temperature_of t = (ascii ''temperature'', JObj [(ascii ''current'', JInt t)])"

definition ata_attr :: "int \<Rightarrow> int \<Rightarrow> json" where
  "ata_attr i r =
     JObj [(ascii ''id'', JInt i), (ascii ''value'', JInt 100), (ascii ''worst'', JInt 99),
           (ascii ''thresh'', JInt 10), (ascii ''raw'', JObj [(ascii ''value'', JInt r)])]"

definition ata_table :: "json list \<Rightarrow> pystr \<times> json" where
  "ata_table attrs = (ascii ''ata_smart_attributes'', JObj [(ascii ''table'', JArr attrs)])"

definition reading :: "int \<Rightarrow> pystr \<Rightarrow> pystr \<Rightarrow> int \<Rightarrow> attr_reading" where
  "reading i n d r =
     \<lparr>attr_id = JInt i, name = n, desc = d, check_raw = True, raw_value = r,
      normalized_value = JInt 100, worst_value = JInt 99, threshold_value = JInt 10\<rparr>"

lemma check_in_passed: "sublist check_mark msg_selftest_passed"
  by (simp add: check_mark_def msg_selftest_passed_def sublist_Cons_right)

lemma check_in_failed: "\<not> sublist check_mark msg_selftest_failed"
  by (simp add: check_mark_def msg_selftest_failed_def sublist_Cons_right)

lemma read_ata_attr_5: "read_attr (ata_attr 5 r) = Inr (Some (reading 5 (ascii ''Reallocated_Sector_Ct'') desc_5 r))"
  by (simp add: read_attr_def ata_attr_def CRITICAL_ATA_ATTRIBUTES_def reading_def ascii_def)

lemma read_ata_attr_197: "read_attr (ata_attr 197 r) = Inr (Some (reading 197 (ascii ''Current_Pending_Sector_Ct'') desc_197 r))"
  by (simp add: read_attr_def ata_attr_def CRITICAL_ATA_ATTRIBUTES_def reading_def ascii_def)

lemma read_ata_attr_9: "read_attr (ata_attr 9 r) = Inr None"
  by (simp add: read_attr_def ata_attr_def CRITICAL_ATA_ATTRIBUTES_def ascii_def)


section \<open>Findings accumulate at any severity\<close>

text \<open>Each of the three warning rules appends its lines to the variables as they are, with
  any status: the status is read only to decide whether it becomes WARNING.\<close>

lemma nvme_life_rule_appends:
  assumes "py_get nvme_log (ascii ''percentage_used'') (JInt 0) = Inr percentage_used"
    and "py_gt percentage_used 85 = Inr True"
  shows "nvme_life_rule nvme_log v =
           Inr (v\<lparr>status := warn (status v),
                  summary_v := summary_v v @ [life_pre @ py_format percentage_used @ life_post],
                  recommendations_v := recommendations_v v @ [rec_replace_ssd]\<rparr>)"
  using assms by (simp add: nvme_life_rule_def)

lemma alarming_attr_rule_appends:
  assumes "alarming attr = Some rd"
  shows "ata_attr_rule attr v =
           Inr (v\<lparr>status := warn (status v),
                  summary_v := summary_v v @ [attr_line rd],
                  recommendations_v := recommendations_v v @ [attr_recommendation rd],
                  critical_attributes_v := critical_attributes_v v @ [attr_finding rd]\<rparr>)"
  using alarming_Some [OF assms]
  by (simp add: ata_attr_rule_def record_attr_def)

lemma temperature_rule_appends:
  assumes "py_get raw_data (ascii ''temperature'') (JObj []) = Inr temperature"
    and "py_get temperature (ascii ''current'') JNull = Inr temp"
    and "temp \<noteq> JNull" and "py_gt temp 55 = Inr True"
  shows "temperature_rule raw_data v =
           Inr (v\<lparr>status := warn (status v),
                  summary_v := summary_v v @ [temp_pre @ py_format temp @ temp_post],
                  recommendations_v := recommendations_v v @ [rec_cooling]\<rparr>)"
  using assms by (simp add: temperature_rule_def)

lemma analysis_accumulates:
  assumes "analyze_smart_data self raw_data = Inr res"
  shows "(\<forall>nvme_log percentage_used.
            py_index raw_data (ascii ''nvme_smart_health_information_log'') = Inr nvme_log \<and>
            py_get nvme_log (ascii ''percentage_used'') (JInt 0) = Inr percentage_used \<and>
            py_gt percentage_used 85 = Inr True \<longrightarrow>
            life_pre @ py_format percentage_used @ life_post \<in> set (summary res) \<and>
            rec_replace_ssd \<in> set (recommendations res))
       \<and> (\<forall>ata table attrs.
            py_index raw_data (ascii ''ata_smart_attributes'') = Inr ata \<and>
            py_index ata (ascii ''table'') = Inr table \<and> py_iter table = Inr attrs \<longrightarrow>
            critical_attributes res = map attr_finding (alarms attrs) \<and>
            sublist (map attr_line (alarms attrs)) (summary res) \<and>
            sublist (map attr_recommendation (alarms attrs)) (recommendations res))
       \<and> (\<forall>temperature temp.
            py_get raw_data (ascii ''temperature'') (JObj []) = Inr temperature \<and>
            py_get temperature (ascii ''current'') JNull = Inr temp \<and>
            temp \<noteq> JNull \<and> py_gt temp 55 = Inr True \<longrightarrow>
            temp_pre @ py_format temp @ temp_post \<in> set (summary res) \<and>
            rec_cooling \<in> set (recommendations res))"
  using analysis_life_line [OF assms] analysis_alarms [OF assms]
    analysis_temperature_line [OF assms]
  by blast

text \<open>
  Claim C9. Accumulation is not gated by the severity. First, rule by rule: with any
  variables \<open>v\<close>, so with any status, the rule on the NVMe life appends its summary line
  and recommendation when more than 85 percent are used, the rule on an attribute
  appends its summary line, recommendation and finding when the attribute is critical
  with a raw value above 0, and the rule on the temperature appends its summary line and
  recommendation when the temperature is above 55; the status becomes WARNING only where
  it was HEALTHY. Second, in the analysis a pass returns, all these lines are there: the
  NVMe line and recommendation, the temperature line and recommendation, and for the ATA
  table the findings of all its critical attributes with a raw value above 0, which are
  the whole list of findings in the order of the table, with their summary lines and
  recommendations as one block each. No hypothesis is made on the self-test or on the
  NVMe critical warning, so the status may have been raised to WARNING or FAILED before.
\<close>

theorem warnings_accumulate_at_any_severity:
  "(py_get nvme_log (ascii ''percentage_used'') (JInt 0) = Inr percentage_used \<and>
    py_gt percentage_used 85 = Inr True \<longrightarrow>
    nvme_life_rule nvme_log v =
      Inr (v\<lparr>status := warn (status v),
             summary_v := summary_v v @ [life_pre @ py_format percentage_used @ life_post],
             recommendations_v := recommendations_v v @ [rec_replace_ssd]\<rparr>))
   \<and> (alarming attr = Some rd \<longrightarrow>
        ata_attr_rule attr v =
          Inr (v\<lparr>status := warn (status v),
                 summary_v := summary_v v @ [attr_line rd],
                 recommendations_v := recommendations_v v @ [attr_recommendation rd],
                 critical_attributes_v := critical_attributes_v v @ [attr_finding rd]\<rparr>))
   \<and> (py_get raw_data (ascii ''temperature'') (JObj []) = Inr temperature \<and>
        py_get temperature (ascii ''current'') JNull = Inr temp \<and>
        temp \<noteq> JNull \<and> py_gt temp 55 = Inr True \<longrightarrow>
        temperature_rule raw_data v =
          Inr (v\<lparr>status := warn (status v),
                 summary_v := summary_v v @ [temp_pre @ py_format temp @ temp_post],
                 recommendations_v := recommendations_v v @ [rec_cooling]\<rparr>))
   \<and> (analyze_smart_data self payload = Inr res \<longrightarrow>
        (\<forall>nvme_log percentage_used.
            py_index payload (ascii ''nvme_smart_health_information_log'') = Inr nvme_log \<and>
            py_get nvme_log (ascii ''percentage_used'') (JInt 0) = Inr percentage_used \<and>
            py_gt percentage_used 85 = Inr True \<longrightarrow>
            life_pre @ py_format percentage_used @ life_post \<in> set (summary res) \<and>
            rec_replace_ssd \<in> set (recommendations res))
        \<and> (\<forall>ata table attrs.
            py_index payload (ascii ''ata_smart_attributes'') = Inr ata \<and>
            py_index ata (ascii ''table'') = Inr table \<and> py_iter table = Inr attrs \<longrightarrow>
            critical_attributes res = map attr_finding (alarms attrs) \<and>
            sublist (map attr_line (alarms attrs)) (summary res) \<and>
            sublist (map attr_recommendation (alarms attrs)) (recommendations res))
        \<and> (\<forall>temperature temp.
            py_get payload (ascii ''temperature'') (JObj []) = Inr temperature \<and>
            py_get temperature (ascii ''current'') JNull = Inr temp \<and>
            temp \<noteq> JNull \<and> py_gt temp 55 = Inr True \<longrightarrow>
            temp_pre @ py_format temp @ temp_post \<in> set (summary res) \<and>
            rec_cooling \<in> set (recommendations res)))"
proof (intro conjI impI)
  assume "py_get nvme_log (ascii ''percentage_used'') (JInt 0) = Inr percentage_used \<and>
          py_gt percentage_used 85 = Inr True"
  then show "nvme_life_rule nvme_log v =
      Inr (v\<lparr>status := warn (status v),
             summary_v := summary_v v @ [life_pre @ py_format percentage_used @ life_post],
             recommendations_v := recommendations_v v @ [rec_replace_ssd]\<rparr>)"
    by (simp add: nvme_life_rule_appends)
next
  assume "alarming attr = Some rd"
  then show "ata_attr_rule attr v =
          Inr (v\<lparr>status := warn (status v),
                 summary_v := summary_v v @ [attr_line rd],
                 recommendations_v := recommendations_v v @ [attr_recommendation rd],
                 critical_attributes_v := critical_attributes_v v @ [attr_finding rd]\<rparr>)"
    by (rule alarming_attr_rule_appends)
next
  assume "py_get raw_data (ascii ''temperature'') (JObj []) = Inr temperature \<and>
          py_get temperature (ascii ''current'') JNull = Inr temp \<and>
          temp \<noteq> JNull \<and> py_gt temp 55 = Inr True"
  then show "temperature_rule raw_data v =
          Inr (v\<lparr>status := warn (status v),
                 summary_v := summary_v v @ [temp_pre @ py_format temp @ temp_post],
                 recommendations_v := recommendations_v v @ [rec_cooling]\<rparr>)"
    by (simp add: temperature_rule_appends)
next
  assume "analyze_smart_data self payload = Inr res"
  from analysis_accumulates [OF this]
  show "(\<forall>nvme_log percentage_used.
            py_index payload (ascii ''nvme_smart_health_information_log'') = Inr nvme_log \<and>
            py_get nvme_log (ascii ''percentage_used'') (JInt 0) = Inr percentage_used \<and>
            py_gt percentage_used 85 = Inr True \<longrightarrow>
            life_pre @ py_format percentage_used @ life_post \<in> set (summary res) \<and>
            rec_replace_ssd \<in> set (recommendations res))"
    and "(\<forall>ata table attrs.
            py_index payload (ascii ''ata_smart_attributes'') = Inr ata \<and>
            py_index ata (ascii ''table'') = Inr table \<and> py_iter table = Inr attrs \<longrightarrow>
            critical_attributes res = map attr_finding (alarms attrs) \<and>
            sublist (map attr_line (alarms attrs)) (summary res) \<and>
            sublist (map attr_recommendation (alarms attrs)) (recommendations res))"
    and "(\<forall>temperature temp.
            py_get payload (ascii ''temperature'') (JObj []) = Inr temperature \<and>
            py_get temperature (ascii ''current'') JNull = Inr temp \<and>
            temp \<noteq> JNull \<and> py_gt temp 55 = Inr True \<longrightarrow>
            temp_pre @ py_format temp @ temp_post \<in> set (summary res) \<and>
            rec_cooling \<in> set (recommendations res))"
    by blast+
qed

text \<open>A payload on which every rule fires: the self-test has failed, the NVMe log has 90
  percent of the life used, attributes 5 and 197 have raw values 3 and 8, and the
  temperature is 60. The status is FAILED from the first rule on, and all the lines are
  there.\<close>

definition failed_status :: "pystr \<times> json" where
  "failed_status = (ascii ''smart_status'', JObj [(ascii ''passed'', JBool False)])"

definition everything_wrong :: json where
  "everything_wrong =
     JObj [failed_status,
           (ascii ''nvme_smart_health_information_log'', worn_log),
           ata_table [ata_attr 5 3, ata_attr 9 1200, ata_attr 197 8],
           temperature_of 60]"

definition reading_5 :: "int \<Rightarrow> attr_reading" where
  "reading_5 r = reading 5 (ascii ''Reallocated_Sector_Ct'') desc_5 r"

definition reading_197 :: "int \<Rightarrow> attr_reading" where
  "reading_197 r = reading 197 (ascii ''Current_Pending_Sector_Ct'') desc_197 r"

definition everything_wrong_analysis :: SmartAnalysis where
  "everything_wrong_analysis =
     \<lparr>health_status = status_name FAILED,
      health_status_description = status_value FAILED,
      summary = [msg_selftest_failed, life_pre @ py_str_int 90 @ life_post,
                 attr_line (reading_5 3), attr_line (reading_197 8),
                 temp_pre @ py_str_int 60 @ temp_post],
      critical_attributes = [attr_finding (reading_5 3), attr_finding (reading_197 8)],
      recommendations = [rec_backup_replace, rec_replace_ssd,
                         attr_recommendation (reading_5 3), attr_recommendation (reading_197 8),
                         rec_cooling]\<rparr>"

lemma everything_wrong_eval:
  "analyze_smart_data fresh_service everything_wrong = Inr everything_wrong_analysis"
  by (simp add: everything_wrong_def everything_wrong_analysis_def failed_status_def worn_log_def
        analyze_smart_data_def selftest_rule_def nvme_rules_def nvme_critical_rule_def
        nvme_life_rule_def ata_rules_def ata_attr_rule_def read_ata_attr_5 read_ata_attr_9
        read_ata_attr_197 record_attr_def temperature_rule_def no_anomaly_rule_def
        analysis_of_def initial_vars_def warn_def reading_def reading_5_def reading_197_def
        temperature_of_def ata_table_def ascii_def)

lemma alarms_of_everything_wrong:
  "alarms [ata_attr 5 3, ata_attr 9 1200, ata_attr 197 8] = [reading_5 3, reading_197 8]"
  by (simp add: alarming_def read_ata_attr_5 read_ata_attr_9 read_ata_attr_197 reading_def
        reading_5_def reading_197_def)

definition failed_vars :: pass_vars where
  "failed_vars = initial_vars\<lparr>status := FAILED\<rparr>"

theorem warnings_accumulate_at_any_severity_witness:
  "nvme_life_rule worn_log failed_vars =
     Inr (failed_vars\<lparr>status := warn (status failed_vars),
            summary_v := summary_v failed_vars @ [life_pre @ py_format (JInt 90) @ life_post],
            recommendations_v := recommendations_v failed_vars @ [rec_replace_ssd]\<rparr>) \<and>
   ata_attr_rule (ata_attr 5 3) failed_vars =
     Inr (failed_vars\<lparr>status := warn (status failed_vars),
            summary_v := summary_v failed_vars @ [attr_line (reading_5 3)],
            recommendations_v := recommendations_v failed_vars @ [attr_recommendation (reading_5 3)],
            critical_attributes_v :=
              critical_attributes_v failed_vars @ [attr_finding (reading_5 3)]\<rparr>) \<and>
   temperature_rule hot_payload failed_vars =
     Inr (failed_vars\<lparr>status := warn (status failed_vars),
            summary_v := summary_v failed_vars @ [temp_pre @ py_format (JInt 60) @ temp_post],
            recommendations_v := recommendations_v failed_vars @ [rec_cooling]\<rparr>) \<and>
   warn (status failed_vars) = FAILED \<and>
   analyze_smart_data fresh_service everything_wrong = Inr everything_wrong_analysis \<and>
   health_status everything_wrong_analysis = status_name FAILED \<and>
   life_pre @ py_str_int 90 @ life_post \<in> set (summary everything_wrong_analysis) \<and>
   rec_replace_ssd \<in> set (recommendations everything_wrong_analysis) \<and>
   critical_attributes everything_wrong_analysis =
     [attr_finding (reading_5 3), attr_finding (reading_197 8)] \<and>
   temp_pre @ py_str_int 60 @ temp_post \<in> set (summary everything_wrong_analysis) \<and>
   rec_cooling \<in> set (recommendations everything_wrong_analysis)"
proof -
  note rules = warnings_accumulate_at_any_severity
    [where v = failed_vars and nvme_log = worn_log and percentage_used = "JInt 90"
       and attr = "ata_attr 5 3" and rd = "reading_5 3" and raw_data = hot_payload
       and temperature = "JObj [(ascii ''current'', JInt 60)]" and temp = "JInt 60"
       and self = fresh_service and payload = everything_wrong
       and res = everything_wrong_analysis]
  have used: "py_get worn_log (ascii ''percentage_used'') (JInt 0) = Inr (JInt 90)"
    by (simp add: worn_log_def)
  have worn: "py_gt (JInt 90) 85 = Inr True"
    by simp
  from rules used worn
  have r1: "nvme_life_rule worn_log failed_vars =
     Inr (failed_vars\<lparr>status := warn (status failed_vars),
            summary_v := summary_v failed_vars @ [life_pre @ py_format (JInt 90) @ life_post],
            recommendations_v := recommendations_v failed_vars @ [rec_replace_ssd]\<rparr>)"
    by blast
  have al5: "alarming (ata_attr 5 3) = Some (reading_5 3)"
    by (simp add: alarming_def read_ata_attr_5 reading_5_def reading_def)
  from rules al5
  have r2: "ata_attr_rule (ata_attr 5 3) failed_vars =
     Inr (failed_vars\<lparr>status := warn (status failed_vars),
            summary_v := summary_v failed_vars @ [attr_line (reading_5 3)],
            recommendations_v := recommendations_v failed_vars @ [attr_recommendation (reading_5 3)],
            critical_attributes_v :=
              critical_attributes_v failed_vars @ [attr_finding (reading_5 3)]\<rparr>)"
    by blast
  have ht: "py_get hot_payload (ascii ''temperature'') (JObj []) =
              Inr (JObj [(ascii ''current'', JInt 60)])"
    by (simp add: hot_payload_def)
  have cur: "py_get (JObj [(ascii ''current'', JInt 60)]) (ascii ''current'') JNull = Inr (JInt 60)"
    by simp
  have hot: "JInt 60 \<noteq> JNull" "py_gt (JInt 60) 55 = Inr True"
    by simp_all
  from rules ht cur hot
  have r3: "temperature_rule hot_payload failed_vars =
     Inr (failed_vars\<lparr>status := warn (status failed_vars),
            summary_v := summary_v failed_vars @ [temp_pre @ py_format (JInt 60) @ temp_post],
            recommendations_v := recommendations_v failed_vars @ [rec_cooling]\<rparr>)"
    by blast
  have stays: "warn (status failed_vars) = FAILED"
    by (simp add: failed_vars_def warn_def)
  from rules everything_wrong_eval
  have acc: "(\<forall>nvme_log percentage_used.
            py_index everything_wrong (ascii ''nvme_smart_health_information_log'') = Inr nvme_log \<and>
            py_get nvme_log (ascii ''percentage_used'') (JInt 0) = Inr percentage_used \<and>
            py_gt percentage_used 85 = Inr True \<longrightarrow>
            life_pre @ py_format percentage_used @ life_post \<in> set (summary everything_wrong_analysis) \<and>
            rec_replace_ssd \<in> set (recommendations everything_wrong_analysis))
        \<and> (\<forall>ata table attrs.
            py_index everything_wrong (ascii ''ata_smart_attributes'') = Inr ata \<and>
            py_index ata (ascii ''table'') = Inr table \<and> py_iter table = Inr attrs \<longrightarrow>
            critical_attributes everything_wrong_analysis = map attr_finding (alarms attrs) \<and>
            sublist (map attr_line (alarms attrs)) (summary everything_wrong_analysis) \<and>
            sublist (map attr_recommendation (alarms attrs)) (recommendations everything_wrong_analysis))
        \<and> (\<forall>temperature temp.
            py_get everything_wrong (ascii ''temperature'') (JObj []) = Inr temperature \<and>
            py_get temperature (ascii ''current'') JNull = Inr temp \<and>
            temp \<noteq> JNull \<and> py_gt temp 55 = Inr True \<longrightarrow>
            temp_pre @ py_format temp @ temp_post \<in> set (summary everything_wrong_analysis) \<and>
            rec_cooling \<in> set (recommendations everything_wrong_analysis))"
    by blast
  have failed: "health_status everything_wrong_analysis = status_name FAILED"
    by (simp add: everything_wrong_analysis_def)
  have log: "py_index everything_wrong (ascii ''nvme_smart_health_information_log'') = Inr worn_log"
    by (simp add: everything_wrong_def failed_status_def ata_table_def temperature_of_def ascii_def)
  from acc log used worn
  have "life_pre @ py_format (JInt 90) @ life_post \<in> set (summary everything_wrong_analysis) \<and>
        rec_replace_ssd \<in> set (recommendations everything_wrong_analysis)"
    by blast
  then have life: "life_pre @ py_str_int 90 @ life_post \<in> set (summary everything_wrong_analysis)"
    and ssd: "rec_replace_ssd \<in> set (recommendations everything_wrong_analysis)"
    by simp_all
  have ata: "py_index everything_wrong (ascii ''ata_smart_attributes'') =
               Inr (JObj [(ascii ''table'', JArr [ata_attr 5 3, ata_attr 9 1200, ata_attr 197 8])])"
    by (simp add: everything_wrong_def failed_status_def ata_table_def temperature_of_def ascii_def)
  have table: "py_index (JObj [(ascii ''table'', JArr [ata_attr 5 3, ata_attr 9 1200, ata_attr 197 8])])
                 (ascii ''table'') = Inr (JArr [ata_attr 5 3, ata_attr 9 1200, ata_attr 197 8])"
    by simp
  have iter: "py_iter (JArr [ata_attr 5 3, ata_attr 9 1200, ata_attr 197 8]) =
                Inr [ata_attr 5 3, ata_attr 9 1200, ata_attr 197 8]"
    by simp
  from acc ata table iter
  have "critical_attributes everything_wrong_analysis =
          map attr_finding (alarms [ata_attr 5 3, ata_attr 9 1200, ata_attr 197 8])"
    by blast
  then have crit: "critical_attributes everything_wrong_analysis =
                     [attr_finding (reading_5 3), attr_finding (reading_197 8)]"
    unfolding alarms_of_everything_wrong by simp
  have t: "py_get everything_wrong (ascii ''temperature'') (JObj []) =
             Inr (JObj [(ascii ''current'', JInt 60)])"
    by (simp add: everything_wrong_def failed_status_def ata_table_def temperature_of_def ascii_def)
  from acc t cur hot
  have "temp_pre @ py_format (JInt 60) @ temp_post \<in> set (summary everything_wrong_analysis) \<and>
        rec_cooling \<in> set (recommendations everything_wrong_analysis)"
    by blast
  then have temp: "temp_pre @ py_str_int 60 @ temp_post \<in> set (summary everything_wrong_analysis)"
    and cool: "rec_cooling \<in> set (recommendations everything_wrong_analysis)"
    by simp_all
  show ?thesis
    by (intro conjI r1 r2 r3 stays everything_wrong_eval failed life ssd crit temp cool)
qed

section \<open>A payload without a passed self-test\<close>

text \<open>
  Claim C10 says that every payload that is not empty and has no \<^verbatim>\<open>smart_status\<close>
  mapping with a true \<^verbatim>\<open>passed\<close> field is classified as FAILED. That fails where the
  analyzer raises instead of classifying: for the payload \<^verbatim>\<open>{"smart_status": null}\<close> the
  expression \<^verbatim>\<open>raw_data.get("smart_status", {})\<close> is \<^verbatim>\<open>None\<close>, and \<^verbatim>\<open>None.get\<close> is an
  AttributeError.
\<close>

definition null_status :: json where
  "null_status = JObj [(ascii ''smart_status'', JNull)]"

theorem null_self_test_raises:
  "truthy null_status \<and> \<not> reports_passed null_status \<and>
   analyze_smart_data fresh_service null_status = Inl AttributeError"
  by (simp add: null_status_def reports_passed_def analyze_smart_data_def selftest_rule_def)

text \<open>
  Claim C10, amended. For every payload that is not empty and whose overall self-test
  indicator does not report passed, an analysis that returns a result returns the status
  FAILED: the absence of the self-test result counts as a failed self-test, not as
  UNKNOWN.
\<close>

theorem missing_self_test_is_failed:
  assumes "analyze_smart_data self raw_data = Inr res"
    and "truthy raw_data" and "\<not> reports_passed raw_data"
  shows "health_status res = status_name FAILED"
proof -
  from assms(1,2) obtain v1 v2 v3 v4 where
    1: "selftest_rule raw_data initial_vars = Inr v1" and
    2: "nvme_rules raw_data v1 = Inr v2" and
    3: "ata_rules raw_data v2 = Inr v3" and
    4: "temperature_rule raw_data v3 = Inr v4" and
    res: "res = analysis_of (no_anomaly_rule v4)"
    by (rule analyze_stages)
  from selftest_rule_effect [OF 1] assms(3) have "status v1 = FAILED" by simp
  with nvme_rules_status [OF 2] have "status v2 = FAILED" by (simp add: escalated_def)
  with ata_rules_status [OF 3] have "status v3 = FAILED" by (simp add: escalated_def)
  with temperature_rule_status [OF 4] have "status v4 = FAILED" by (simp add: escalated_def)
  with res show ?thesis by (simp add: analysis_of_def)
qed

text \<open>A payload with a temperature of 45 and no \<^verbatim>\<open>smart_status\<close> at all.\<close>

definition only_temperature :: json where
  "only_temperature = JObj [temperature_of 45]"

definition only_temperature_analysis :: SmartAnalysis where
  "only_temperature_analysis =
     \<lparr>health_status = status_name FAILED,
      health_status_description = status_value FAILED,
      summary = [msg_selftest_failed],
      critical_attributes = [],
      recommendations = [rec_backup_replace]\<rparr>"

lemma only_temperature_eval:
  "analyze_smart_data fresh_service only_temperature = Inr only_temperature_analysis"
  by (simp add: only_temperature_def only_temperature_analysis_def temperature_of_def
        analyze_smart_data_def selftest_rule_def nvme_rules_def ata_rules_def
        temperature_rule_def no_anomaly_rule_def check_in_failed analysis_of_def
        initial_vars_def ascii_def)

theorem missing_self_test_is_failed_witness:
  "analyze_smart_data fresh_service only_temperature = Inr only_temperature_analysis \<and>
   truthy only_temperature \<and> \<not> reports_passed only_temperature \<and>
   health_status only_temperature_analysis = status_name FAILED"
proof -
  have t: "truthy only_temperature"
    by (simp add: only_temperature_def)
  have n: "\<not> reports_passed only_temperature"
    by (simp add: only_temperature_def reports_passed_def temperature_of_def ascii_def)
  from missing_self_test_is_failed [OF only_temperature_eval t n]
  have f: "health_status only_temperature_analysis = status_name FAILED" .
  show ?thesis
    by (intro conjI only_temperature_eval t n f)
qed

section \<open>A worn NVMe device\<close>

text \<open>
  Claim C6 says that every payload whose NVMe health log has \<^verbatim>\<open>percentage_used\<close> 90 and
  \<^verbatim>\<open>critical_warning\<close> 0 gets the status WARNING. The payload that holds this log and
  nothing else has no passed self-test, so its status is FAILED; the line on the life of
  the SSD is in its summary.
\<close>

definition only_worn_log :: json where
  "only_worn_log = JObj [(ascii ''nvme_smart_health_information_log'', worn_log)]"

theorem worn_nvme_without_self_test_is_failed:
  "py_index only_worn_log (ascii ''nvme_smart_health_information_log'') = Inr worn_log \<and>
   py_index worn_log (ascii ''percentage_used'') = Inr (JInt 90) \<and>
   py_index worn_log (ascii ''critical_warning'') = Inr (JInt 0) \<and>
   analyze_smart_data fresh_service only_worn_log =
     Inr \<lparr>health_status = status_name FAILED,
          health_status_description = status_value FAILED,
          summary = [msg_selftest_failed, life_pre @ py_str_int 90 @ life_post],
          critical_attributes = [],
          recommendations = [rec_backup_replace, rec_replace_ssd]\<rparr> \<and>
   status_name FAILED \<noteq> status_name WARNING"
  by (simp add: only_worn_log_def worn_log_def analyze_smart_data_def selftest_rule_def
        nvme_rules_def nvme_critical_rule_def nvme_life_rule_def ata_rules_def
        temperature_rule_def no_anomaly_rule_def check_in_failed analysis_of_def
        initial_vars_def warn_def ascii_def)

text \<open>
  Claim C6, amended. For every payload whose overall self-test indicator reports passed
  and whose NVMe health log has \<^verbatim>\<open>percentage_used\<close> 90 and \<^verbatim>\<open>critical_warning\<close> 0 (or no
  \<^verbatim>\<open>critical_warning\<close>, which reads as 0), an analysis that returns a result returns the
  status WARNING and a summary line that cites the 90 percent of SSD life used.
\<close>

theorem worn_nvme_with_passed_self_test_is_warning:
  assumes "analyze_smart_data self raw_data = Inr res"
    and "reports_passed raw_data"
    and "py_index raw_data (ascii ''nvme_smart_health_information_log'') = Inr nvme_log"
    and "py_get nvme_log (ascii ''percentage_used'') (JInt 0) = Inr (JInt 90)"
    and "py_get nvme_log (ascii ''critical_warning'') (JInt 0) = Inr (JInt 0)"
  shows "health_status res = status_name WARNING \<and>
         life_pre @ py_str_int 90 @ life_post \<in> set (summary res)"
proof -
  from assms(1) reports_passed_truthy [OF assms(2)] obtain v1 v2 v3 v4 where
    1: "selftest_rule raw_data initial_vars = Inr v1" and
    2: "nvme_rules raw_data v1 = Inr v2" and
    3: "ata_rules raw_data v2 = Inr v3" and
    4: "temperature_rule raw_data v3 = Inr v4" and
    res: "res = analysis_of (no_anomaly_rule v4)"
    by (rule analyze_stages)
  from selftest_rule_effect [OF 1] assms(2) have s1: "status v1 = HEALTHY"
    by (simp add: initial_vars_def)
  from 2 assms(3) obtain v1' where c: "nvme_critical_rule nvme_log v1 = Inr v1'"
    and l: "nvme_life_rule nvme_log v1' = Inr v2"
    by (rule nvme_rules_present)
  from c assms(5) have "v1' = v1"
    by (simp add: nvme_critical_rule_def)
  with l assms(4) s1 have "status v2 = WARNING"
    by (auto simp: nvme_life_rule_def warn_def)
  with ata_rules_soft [OF 3] have "status v3 = WARNING" by (simp add: softly_def)
  with temperature_rule_soft [OF 4] have "status v4 = WARNING" by (simp add: softly_def)
  then have "health_status res = status_name WARNING"
    by (simp add: res analysis_of_def)
  moreover have "py_gt (JInt 90) 85 = Inr True" by simp
  from analysis_life_line [OF assms(1,3,4) this]
  have "life_pre @ py_format (JInt 90) @ life_post \<in> set (summary res)" by simp
  ultimately show ?thesis by simp
qed

text \<open>Scenario C with a passed self-test.\<close>

definition worn_and_passed :: json where
  "worn_and_passed =
     JObj [passed_status, (ascii ''nvme_smart_health_information_log'', worn_log)]"

definition worn_and_passed_analysis :: SmartAnalysis where
  "worn_and_passed_analysis =
     \<lparr>health_status = status_name WARNING,
      health_status_description = status_value WARNING,
      summary = [msg_selftest_passed, life_pre @ py_str_int 90 @ life_post],
      critical_attributes = [],
      recommendations = [rec_replace_ssd]\<rparr>"

lemma worn_and_passed_eval:
  "analyze_smart_data fresh_service worn_and_passed = Inr worn_and_passed_analysis"
  by (simp add: worn_and_passed_def worn_and_passed_analysis_def passed_status_def worn_log_def
        analyze_smart_data_def selftest_rule_def nvme_rules_def nvme_critical_rule_def
        nvme_life_rule_def ata_rules_def temperature_rule_def no_anomaly_rule_def
        analysis_of_def initial_vars_def warn_def ascii_def)

theorem worn_nvme_with_passed_self_test_is_warning_witness:
  "analyze_smart_data fresh_service worn_and_passed = Inr worn_and_passed_analysis \<and>
   reports_passed worn_and_passed \<and>
   py_index worn_and_passed (ascii ''nvme_smart_health_information_log'') = Inr worn_log \<and>
   py_get worn_log (ascii ''percentage_used'') (JInt 0) = Inr (JInt 90) \<and>
   py_get worn_log (ascii ''critical_warning'') (JInt 0) = Inr (JInt 0) \<and>
   health_status worn_and_passed_analysis = status_name WARNING \<and>
   life_pre @ py_str_int 90 @ life_post \<in> set (summary worn_and_passed_analysis)"
proof -
  have p: "reports_passed worn_and_passed"
    by (simp add: worn_and_passed_def reports_passed_def passed_status_def ascii_def)
  have l: "py_index worn_and_passed (ascii ''nvme_smart_health_information_log'') = Inr worn_log"
    by (simp add: worn_and_passed_def passed_status_def ascii_def)
  have u: "py_get worn_log (ascii ''percentage_used'') (JInt 0) = Inr (JInt 90)"
    by (simp add: worn_log_def)
  have c: "py_get worn_log (ascii ''critical_warning'') (JInt 0) = Inr (JInt 0)"
    by (simp add: worn_log_def ascii_def)
  from worn_nvme_with_passed_self_test_is_warning [OF worn_and_passed_eval p l u c]
  have w: "health_status worn_and_passed_analysis = status_name WARNING"
    and s: "life_pre @ py_str_int 90 @ life_post \<in> set (summary worn_and_passed_analysis)"
    by simp_all
  show ?thesis
    by (intro conjI worn_and_passed_eval p l u c w s)
qed

section \<open>Reallocated sectors\<close>

text \<open>
  Claim C5 says that every payload with a passed self-test, a temperature of 40 and an
  ATA table that contains attribute 5 with raw value 3 gets exactly one finding. A
  table that also contains attribute 197 (pending sectors) with raw value 8 gets two.
\<close>

definition two_alarms :: json where
  "two_alarms = JObj [passed_status, ata_table [ata_attr 5 3, ata_attr 197 8], temperature_of 40]"

theorem two_alarms_give_two_findings:
  "reports_passed two_alarms \<and>
   py_index two_alarms (ascii ''ata_smart_attributes'') =
     Inr (JObj [(ascii ''table'', JArr [ata_attr 5 3, ata_attr 197 8])]) \<and>
   read_attr (ata_attr 5 3) = Inr (Some (reading_5 3)) \<and>
   py_index two_alarms (ascii ''temperature'') = Inr (JObj [(ascii ''current'', JInt 40)]) \<and>
   analyze_smart_data fresh_service two_alarms =
     Inr \<lparr>health_status = status_name WARNING,
          health_status_description = status_value WARNING,
          summary = [msg_selftest_passed, attr_line (reading_5 3), attr_line (reading_197 8)],
          critical_attributes = [attr_finding (reading_5 3), attr_finding (reading_197 8)],
          recommendations = [attr_recommendation (reading_5 3),
                             attr_recommendation (reading_197 8)]\<rparr> \<and>
   attr_finding (reading_5 3) \<noteq> attr_finding (reading_197 8)"
  by (simp add: two_alarms_def reports_passed_def analyze_smart_data_def selftest_rule_def
        nvme_rules_def ata_rules_def ata_attr_rule_def read_ata_attr_5 read_ata_attr_197
        record_attr_def temperature_rule_def no_anomaly_rule_def analysis_of_def
        initial_vars_def warn_def reading_def reading_5_def reading_197_def attr_finding_def
        passed_status_def temperature_of_def ata_table_def ascii_def)

text \<open>
  Claim C5, amended. For every payload whose overall self-test indicator reports passed,
  that has no NVMe critical warning, whose reported temperature is 40, and in whose ATA
  table the only critical attribute with a raw value above 0 is one entry with id 5 and
  raw value 3, an analysis that returns a result returns the status WARNING and exactly
  one finding: id 5, the name \<^verbatim>\<open>Reallocated_Sector_Ct\<close> and its description, the raw value
  3, and the normalized, worst and threshold values of the entry.
\<close>

theorem single_reallocated_sector_alarm_is_warning:
  assumes "analyze_smart_data self raw_data = Inr res"
    and "reports_passed raw_data"
    and "\<not> nvme_critical raw_data"
    and "py_index raw_data (ascii ''ata_smart_attributes'') = Inr ata"
    and "py_index ata (ascii ''table'') = Inr table"
    and "py_iter table = Inr attrs"
    and "alarms attrs = [rd]" and "attr_id rd = JInt 5" and "raw_value rd = 3"
    and "py_get raw_data (ascii ''temperature'') (JObj []) = Inr temperature"
    and "py_get temperature (ascii ''current'') JNull = Inr (JInt 40)"
  shows "health_status res = status_name WARNING \<and>
         critical_attributes res =
           [\<lparr>f_id = JInt 5, f_name = ascii ''Reallocated_Sector_Ct'', f_raw_value = 3,
             f_description = desc_5, f_value = normalized_value rd, f_worst = worst_value rd,
             f_thresh = threshold_value rd\<rparr>]"
proof -
  from assms(1) reports_passed_truthy [OF assms(2)] obtain v1 v2 v3 v4 where
    1: "selftest_rule raw_data initial_vars = Inr v1" and
    2: "nvme_rules raw_data v1 = Inr v2" and
    3: "ata_rules raw_data v2 = Inr v3" and
    4: "temperature_rule raw_data v3 = Inr v4" and
    res: "res = analysis_of (no_anomaly_rule v4)"
    by (rule analyze_stages)
  from selftest_rule_effect [OF 1] assms(2) have "status v1 = HEALTHY"
    by (simp add: initial_vars_def)
  with nvme_rules_soft [OF 2 assms(3)] have "status v2 = HEALTHY \<or> status v2 = WARNING"
    by (auto simp: softly_def)
  moreover from ata_rules_effect [OF 3] assms(4-7) have "v3 = add_alarms [rd] v2"
    by simp
  ultimately have "status v3 = WARNING"
    by (auto simp: add_alarms_def warn_def)
  with temperature_rule_soft [OF 4] have "status v4 = WARNING" by (simp add: softly_def)
  then have st: "health_status res = status_name WARNING"
    by (simp add: res analysis_of_def)
  from assms(7) have "rd \<in> set (alarms attrs)" by simp
  then obtain a where "alarming a = Some rd" by (auto dest: alarms_mem)
  then have "read_attr a = Inr (Some rd)" by (simp add: alarming_Some)
  from read_attr_id_5 [OF this assms(8)]
  have "name rd = ascii ''Reallocated_Sector_Ct''" "desc rd = desc_5" by simp_all
  moreover from analysis_alarms [OF assms(1,4,5,6)] assms(7)
  have "critical_attributes res = [attr_finding rd]" by simp
  ultimately show ?thesis using st assms(8,9)
    by (simp add: attr_finding_def)
qed

text \<open>Scenario A, with a power-on-hours attribute (id 9, not critical) beside attribute 5.\<close>

definition scenario_a :: json where
  "scenario_a = JObj [passed_status, ata_table [ata_attr 9 1200, ata_attr 5 3], temperature_of 40]"

definition scenario_a_analysis :: SmartAnalysis where
  "scenario_a_analysis =
     \<lparr>health_status = status_name WARNING,
      health_status_description = status_value WARNING,
      summary = [msg_selftest_passed, attr_line (reading_5 3)],
      critical_attributes = [attr_finding (reading_5 3)],
      recommendations = [attr_recommendation (reading_5 3)]\<rparr>"

lemma scenario_a_eval:
  "analyze_smart_data fresh_service scenario_a = Inr scenario_a_analysis"
  by (simp add: scenario_a_def scenario_a_analysis_def analyze_smart_data_def selftest_rule_def
        nvme_rules_def ata_rules_def ata_attr_rule_def read_ata_attr_5 read_ata_attr_9
        record_attr_def temperature_rule_def no_anomaly_rule_def analysis_of_def
        initial_vars_def warn_def reading_def reading_5_def passed_status_def
        temperature_of_def ata_table_def ascii_def)

theorem single_reallocated_sector_alarm_is_warning_witness:
  "analyze_smart_data fresh_service scenario_a = Inr scenario_a_analysis \<and>
   reports_passed scenario_a \<and> \<not> nvme_critical scenario_a \<and>
   alarms [ata_attr 9 1200, ata_attr 5 3] = [reading_5 3] \<and>
   health_status scenario_a_analysis = status_name WARNING \<and>
   critical_attributes scenario_a_analysis =
     [\<lparr>f_id = JInt 5, f_name = ascii ''Reallocated_Sector_Ct'', f_raw_value = 3,
       f_description = desc_5, f_value = JInt 100, f_worst = JInt 99, f_thresh = JInt 10\<rparr>]"
proof -
  have p: "reports_passed scenario_a"
    by (simp add: scenario_a_def reports_passed_def passed_status_def ascii_def)
  have n: "\<not> nvme_critical scenario_a"
    by (simp add: scenario_a_def nvme_critical_def passed_status_def ata_table_def
          temperature_of_def ascii_def)
  have a: "py_index scenario_a (ascii ''ata_smart_attributes'') =
             Inr (JObj [(ascii ''table'', JArr [ata_attr 9 1200, ata_attr 5 3])])"
    by (simp add: scenario_a_def passed_status_def ata_table_def temperature_of_def ascii_def)
  have t: "py_index (JObj [(ascii ''table'', JArr [ata_attr 9 1200, ata_attr 5 3])]) (ascii ''table'') =
             Inr (JArr [ata_attr 9 1200, ata_attr 5 3])"
    by simp
  have i: "py_iter (JArr [ata_attr 9 1200, ata_attr 5 3]) = Inr [ata_attr 9 1200, ata_attr 5 3]"
    by simp
  have al: "alarms [ata_attr 9 1200, ata_attr 5 3] = [reading_5 3]"
    by (simp add: alarming_def read_ata_attr_5 read_ata_attr_9 reading_def reading_5_def)
  have id5: "attr_id (reading_5 3) = JInt 5" and raw3: "raw_value (reading_5 3) = 3"
    by (simp_all add: reading_5_def reading_def)
  have temp: "py_get scenario_a (ascii ''temperature'') (JObj []) =
                Inr (JObj [(ascii ''current'', JInt 40)])"
    by (simp add: scenario_a_def passed_status_def ata_table_def temperature_of_def ascii_def)
  have cur: "py_get (JObj [(ascii ''current'', JInt 40)]) (ascii ''current'') JNull = Inr (JInt 40)"
    by simp
  from single_reallocated_sector_alarm_is_warning
    [OF scenario_a_eval p n a t i al id5 raw3 temp cur]
  have w: "health_status scenario_a_analysis = status_name WARNING"
    and f: "critical_attributes scenario_a_analysis =
              [\<lparr>f_id = JInt 5, f_name = ascii ''Reallocated_Sector_Ct'', f_raw_value = 3,
                f_description = desc_5, f_value = JInt 100, f_worst = JInt 99,
                f_thresh = JInt 10\<rparr>]"
    by (simp_all add: reading_5_def reading_def)
  show ?thesis
    by (intro conjI scenario_a_eval p n al w f)
qed

section \<open>The command executor returns its failures\<close>

text \<open>
  Claim C4. For every command and elevation flag, and whatever the process does within
  the 60 seconds \<^verbatim>\<open>_run_command\<close> gives it (the timeout is fixed in the source, it is not
  an argument), the call raises nothing: it returns a pair of a success flag and a
  payload. The flag is true exactly when the process has completed with exit code 0,
  and the payload is then its stripped standard output. Otherwise the payload is a
  diagnostic string: for a program that is not found, the message with the file name;
  for a timeout, the message with the command line; for an exit code that is not 0, the
  message with the command line, the stripped standard error (or standard output when
  the standard error is empty) and the exit code; for any other exception, its text.
\<close>

theorem run_command_never_raises:
  "\<exists>success payload.
     run_command subprocess_run command use_sudo = Inr (success, payload) \<and>
     (case subprocess_run (full_command_of command use_sudo) of
        Inr stdout \<Rightarrow> success \<and> payload = py_strip stdout
      | Inl (FileNotFoundError filename) \<Rightarrow>
          \<not> success \<and>
          payload = err_notfound_pre @ (case filename of None \<Rightarrow> ascii ''None'' | Some f \<Rightarrow> f) @
                    err_notfound_post
      | Inl TimeoutExpired \<Rightarrow>
          \<not> success \<and>
          payload = err_cmd_pre @ py_join (ascii '' '') (full_command_of command use_sudo) @
                    err_timeout_post
      | Inl (CalledProcessError returncode stdout stderr) \<Rightarrow>
          \<not> success \<and>
          payload = err_cmd_pre @ py_join (ascii '' '') (full_command_of command use_sudo) @
                    err_failed_mid @
                    (if stderr \<noteq> [] then py_strip stderr else py_strip stdout) @
                    err_exit_pre @ py_str_int returncode @ err_exit_post
      | Inl (OtherException e) \<Rightarrow> \<not> success \<and> payload = err_unknown_pre @ e)"
proof (cases "subprocess_run (full_command_of command use_sudo)")
  case (Inr stdout)
  then show ?thesis
    by (auto simp: run_command_def Let_def)
next
  case (Inl e)
  then show ?thesis
    by (cases e) (auto simp: run_command_def Let_def)
qed

section \<open>A device without a payload\<close>










text \<open>The payload is absent when the command has failed (it was not found, timed out,
  ended with an exit code other than 0, or raised anything else) and when
  \<^verbatim>\<open>json.loads\<close> raises \<^verbatim>\<open>JSONDecodeError\<close> on its output.\<close>

lemma failed_fetch_is_absent:
  assumes "subprocess_run
             (full_command_of ([ascii ''smartctl'', ascii ''-a'', ascii ''-j''] @ type_args d @ [path d])
                True) = Inl e"
  shows "\<exists>msg. get_raw_smart_data_for_device subprocess_run json_loads d = Inr (JNull, Some msg)"
  using assms
  by (cases e) (simp_all add: get_raw_smart_data_for_device_def run_command_def Let_def)

lemma failed_parse_is_absent:
  assumes "subprocess_run
             (full_command_of ([ascii ''smartctl'', ascii ''-a'', ascii ''-j''] @ type_args d @ [path d])
                True) = Inr stdout"
    and "json_loads (py_strip stdout) = JSONDecodeError"
  shows "\<exists>msg. get_raw_smart_data_for_device subprocess_run json_loads d = Inr (JNull, Some msg)"
  using assms
  by (simp add: get_raw_smart_data_for_device_def run_command_def Let_def)

text \<open>Any other exception of \<^verbatim>\<open>json.loads\<close> is not a payload that is absent: it leaves
  \<^verbatim>\<open>_get_raw_smart_data_for_device\<close> and the loop, so the cycle has no report, for this
  device or for the devices after it.\<close>

lemma other_loads_exception_leaves_the_cycle:
  assumes "subprocess_run
             (full_command_of ([ascii ''smartctl'', ascii ''-a'', ascii ''-j''] @ type_args d @ [path d])
                True) = Inr stdout"
    and "json_loads (py_strip stdout) = LoadsRaised e"
  shows "get_raw_smart_data_for_device subprocess_run json_loads d = Inl (Inr e)"
    and "collect_all_smart_info self subprocess_run json_loads (Inr (d # ds)) = Inl (Inr e)"
  using assms
  by (simp_all add: get_raw_smart_data_for_device_def run_command_def Let_def
        collect_all_smart_info_def collect_device_def bindE_def)














section \<open>The copies the accessors return are shallow\<close>

text \<open>
  A heap is in order for the store when every reference below \<open>next_ref\<close> has an object,
  the items of these objects refer below \<open>next_ref\<close> again, and the four attributes of
  the store are such references. Two heaps agree below \<open>N\<close> when they have the same
  objects there.
\<close>

fun val_below :: "nat \<Rightarrow> pyval \<Rightarrow> bool" where
  "val_below N (VRef r) = (r < N)"
| "val_below N v = True"

fun obj_below :: "nat \<Rightarrow> pyobj \<Rightarrow> bool" where
  "obj_below N (DictObj kvs) = list_all (\<lambda>kv. val_below N (snd kv)) kvs"
| "obj_below N (ListObj xs) = list_all (val_below N) xs"
| "obj_below N (DequeObj xs n) = list_all (val_below N) xs"

definition closed_below :: "nat \<Rightarrow> heap \<Rightarrow> bool" where
  "closed_below N h = (\<forall>r < N. \<exists>obj. objects h r = Some obj \<and> obj_below N obj)"

definition store_ok :: "store_refs \<Rightarrow> heap \<Rightarrow> bool" where
  "store_ok self h =
     (closed_below (next_ref h) h \<and>
      hardware_info_ref self < next_ref h \<and> realtime_history_ref self < next_ref h \<and>
      disk_usage_ref self < next_ref h \<and> smart_info_ref self < next_ref h)"

definition agree_below :: "nat \<Rightarrow> heap \<Rightarrow> heap \<Rightarrow> bool" where
  "agree_below N h h' = (\<forall>r < N. objects h' r = objects h r)"

definition accessors :: "(store_refs \<Rightarrow> heap \<Rightarrow> py_error + nat \<times> heap) set" where
  "accessors = {get_hardware_info, get_realtime_history, get_disk_usage, get_smart_info}"

fun listed :: "pyobj \<Rightarrow> pyobj" where
  "listed (DictObj kvs) = ListObj (map (\<lambda>kv. VStr (fst kv)) kvs)"
| "listed (ListObj xs) = ListObj xs"
| "listed (DequeObj xs n) = ListObj xs"

definition reads_from ::
  "(store_refs \<Rightarrow> heap \<Rightarrow> py_error + nat \<times> heap) \<Rightarrow> store_refs \<Rightarrow> nat \<Rightarrow> (pyobj \<Rightarrow> pyobj) \<Rightarrow> bool" where
  "reads_from get self src f =
     (\<forall>h. get self h = (case objects h src of
                           Some obj \<Rightarrow> Inr (alloc (f obj) h)
                         | None \<Rightarrow> get self h))"


lemma view_agree:
  assumes "closed_below N h" and "agree_below N h h'"
  shows "val_below N v \<Longrightarrow> view n h' v = view n h v"
proof (induction n arbitrary: v)
  case 0
  then show ?case by (cases v) simp_all
next
  case (Suc n)
  show ?case
  proof (cases v)
    case (VRef r)
    with Suc.prems have r: "r < N" by simp
    with assms obtain obj where obj: "objects h r = Some obj" "obj_below N obj"
      and same: "objects h' r = objects h r"
      by (auto simp: closed_below_def agree_below_def)
    show ?thesis
    proof (cases obj)
      case (DictObj kvs)
      with obj Suc.IH show ?thesis
        using VRef same by (auto simp: list_all_iff)
    next
      case (ListObj xs)
      with obj Suc.IH show ?thesis
        using VRef same by (auto simp: list_all_iff)
    next
      case (DequeObj xs m)
      with obj Suc.IH show ?thesis
        using VRef same by (auto simp: list_all_iff)
    qed
  qed simp_all
qed

lemma agree_below_refl: "agree_below N h h"
  by (simp add: agree_below_def)

lemma agree_below_trans: "agree_below N a b \<Longrightarrow> agree_below N b c \<Longrightarrow> agree_below N a c"
  by (simp add: agree_below_def)

lemma agree_below_mutate: "N \<le> r \<Longrightarrow> agree_below N h (mutate r m h)"
  by (auto simp: agree_below_def mutate_def split: option.splits)

lemma next_ref_mutate [simp]: "next_ref (mutate r m h) = next_ref h"
  by (simp add: mutate_def split: option.splits)

lemma next_ref_mutate_all [simp]: "next_ref (mutate_all ms h) = next_ref h"
  by (induction ms arbitrary: h) auto

lemma agree_below_mutate_all:
  "list_all (\<lambda>rm. N \<le> fst rm) ms \<Longrightarrow> agree_below N h (mutate_all ms h)"
proof (induction ms arbitrary: h)
  case Nil
  then show ?case by (simp add: agree_below_refl)
next
  case (Cons rm ms)
  obtain r m where rm: "rm = (r, m)" by (cases rm)
  with Cons.prems have "N \<le> r" "list_all (\<lambda>rm. N \<le> fst rm) ms" by simp_all
  with Cons.IH [of "mutate r m h"] agree_below_mutate [of N r h m] show ?case
    by (auto simp: rm intro: agree_below_trans)
qed

lemma agree_below_alloc: "N \<le> next_ref h \<Longrightarrow> agree_below N h (snd (alloc obj h))"
  by (simp add: agree_below_def alloc_def)

text \<open>Two fresh objects with the same content, whose items refer below \<open>N\<close>, look the
  same in heaps that agree below \<open>N\<close> with a heap closed below \<open>N\<close>.\<close>

lemma view_fresh:
  assumes "closed_below N h" and "agree_below N h h'" and "objects h' r = Some obj" and "obj_below N obj"
    and "agree_below N h h''" and "objects h'' r' = Some obj"
  shows "view n h'' (VRef r') = view n h' (VRef r)"
proof (cases n)
  case 0
  then show ?thesis by simp
next
  case (Suc k)
  have eq: "val_below N v \<Longrightarrow> view k h'' v = view k h' v" for v
    using view_agree [OF assms(1,2), of v k] view_agree [OF assms(1,5), of v k] by simp
  show ?thesis
  proof (cases obj)
    case (DictObj kvs)
    with assms(3,4,6) eq show ?thesis
      by (auto simp: Suc list_all_iff)
  next
    case (ListObj xs)
    with assms(3,4,6) eq show ?thesis
      by (auto simp: Suc list_all_iff)
  next
    case (DequeObj xs m)
    with assms(3,4,6) eq show ?thesis
      by (auto simp: Suc list_all_iff)
  qed
qed

lemma py_list_listed:
  "py_list r h = (case objects h r of Some obj \<Rightarrow> Inr (alloc (listed obj) h) | None \<Rightarrow> Inl TypeError)"
  by (auto simp: py_list_def split: option.splits pyobj.splits)

lemma listed_below: "obj_below N obj \<Longrightarrow> obj_below N (listed obj)"
  by (cases obj) (auto simp: list_all_iff)

text \<open>Every accessor allocates one object, whose content it takes from one object of the
  store.\<close>

lemma accessor_reads:
  assumes "get \<in> accessors" and "store_ok self h"
  shows "\<exists>src f. src < next_ref h \<and> reads_from get self src f \<and>
           (\<forall>obj. obj_below (next_ref h) obj \<longrightarrow> obj_below (next_ref h) (f obj))"
proof -
  from assms(1) consider "get = get_hardware_info" | "get = get_realtime_history"
    | "get = get_disk_usage" | "get = get_smart_info"
    by (auto simp: accessors_def)
  then show ?thesis
  proof cases
    case 1
    have "reads_from get self (hardware_info_ref self) (\<lambda>obj. obj)"
      by (auto simp: 1 reads_from_def get_hardware_info_def py_copy_def split: option.splits)
    with assms(2) show ?thesis by (auto simp: store_ok_def)
  next
    case 2
    have "reads_from get self (realtime_history_ref self) listed"
      by (auto simp: 2 reads_from_def get_realtime_history_def py_list_listed split: option.splits)
    with assms(2) listed_below show ?thesis by (auto simp: store_ok_def)
  next
    case 3
    have "reads_from get self (disk_usage_ref self) (\<lambda>obj. obj)"
      by (auto simp: 3 reads_from_def get_disk_usage_def py_copy_def split: option.splits)
    with assms(2) show ?thesis by (auto simp: store_ok_def)
  next
    case 4
    have "reads_from get self (smart_info_ref self) (\<lambda>obj. obj)"
      by (auto simp: 4 reads_from_def get_smart_info_def py_copy_def split: option.splits)
    with assms(2) show ?thesis by (auto simp: store_ok_def)
  qed
qed

lemma reads_from_Some:
  assumes "reads_from get self src f" and "objects h src = Some obj"
  shows "get self h = Inr (alloc (f obj) h)"
proof -
  from assms(1)
  have "get self h = (case objects h src of
                        Some obj \<Rightarrow> Inr (alloc (f obj) h)
                      | None \<Rightarrow> get self h)"
    unfolding reads_from_def by blast
  with assms(2) show ?thesis by simp
qed

lemma alloc_simps [simp]:
  "fst (alloc obj h) = next_ref h"
  "next_ref (snd (alloc obj h)) = Suc (next_ref h)"
  "objects (snd (alloc obj h)) = (objects h)(next_ref h \<mapsto> obj)"
  by (simp_all add: alloc_def)

lemma view_numeral:
  "view (numeral k) h (VRef r) =
     (case objects h r of
        None \<Rightarrow> JNull
      | Some (DictObj kvs) \<Rightarrow> JObj (map (\<lambda>kv. (fst kv, view (pred_numeral k) h (snd kv))) kvs)
      | Some (ListObj xs) \<Rightarrow> JArr (map (view (pred_numeral k) h) xs)
      | Some (DequeObj xs m) \<Rightarrow> JArr (map (view (pred_numeral k) h) xs))"
  by (simp add: numeral_eq_Suc)

lemma view_1:
  "view 1 h (VRef r) =
     (case objects h r of
        None \<Rightarrow> JNull
      | Some (DictObj kvs) \<Rightarrow> JObj (map (\<lambda>kv. (fst kv, view 0 h (snd kv))) kvs)
      | Some (ListObj xs) \<Rightarrow> JArr (map (view 0 h) xs)
      | Some (DequeObj xs m) \<Rightarrow> JArr (map (view 0 h) xs))"
  unfolding One_nat_def by simp

text \<open>
  A store after the first hardware probe: \<^verbatim>\<open>_hardware_info\<close> is the dict at reference 0,
  with a timestamp and, under \<^verbatim>\<open>data\<close>, the dict at reference 1; the history is an empty
  deque and the two other reports are empty dicts.
\<close>

definition example_store :: store_refs where
  "example_store =
     \<lparr>hardware_info_ref = 0, realtime_history_ref = 2, disk_usage_ref = 3, smart_info_ref = 4\<rparr>"

definition hardware_items :: "(pystr \<times> pyval) list" where
  "hardware_items = [(ascii ''timestamp'', VStr (ascii ''2025-01-01T00:00:00+00:00'')), (ascii ''data'', VRef 1)]"

definition example_heap :: heap where
  "example_heap =
     \<lparr>objects = [0 \<mapsto> DictObj hardware_items,
                 1 \<mapsto> DictObj [(ascii ''os'', VStr (ascii ''Linux''))],
                 2 \<mapsto> DequeObj [] (Some 360),
                 3 \<mapsto> DictObj [],
                 4 \<mapsto> DictObj []],
      next_ref = 5\<rparr>"

definition first_read :: heap where
  "first_read = example_heap\<lparr>objects := (objects example_heap)(5 \<mapsto> DictObj hardware_items), next_ref := 6\<rparr>"

definition nested_write :: "(nat \<times> mutation) list" where
  "nested_write = [(1, SetItem (ascii ''os'') (VStr (ascii ''changed'')))]"

definition second_read :: heap where
  "second_read =
     (mutate_all nested_write first_read)
       \<lparr>objects := (objects (mutate_all nested_write first_read))(6 \<mapsto> DictObj hardware_items),
        next_ref := 7\<rparr>"

lemma example_store_ok: "store_ok example_store example_heap"
  by (simp add: store_ok_def closed_below_def example_store_def example_heap_def hardware_items_def
        eval_nat_numeral All_less_Suc)

lemma first_read_eval: "get_hardware_info example_store example_heap = Inr (5, first_read)"
  by (simp add: get_hardware_info_def py_copy_def alloc_def example_store_def example_heap_def first_read_def)

text \<open>
  Claim C8 says that mutating a returned collection, its nested members included, does
  not alter the snapshots returned afterwards. The accessors copy the outer container
  only (\<^verbatim>\<open>dict.copy()\<close>, \<^verbatim>\<open>list(deque)\<close>), so the nested members of the copy are the
  objects of the store. A caller that gets the hardware information and assigns
  \<^verbatim>\<open>info["data"]["os"] = "changed"\<close> writes to the dict at reference 1, and the next call
  of \<^verbatim>\<open>get_hardware_info\<close> returns the changed data.
\<close>

theorem nested_mutation_reaches_the_store:
  "store_ok example_store example_heap \<and>
   get_hardware_info example_store example_heap = Inr (5, first_read) \<and>
   objects first_read 5 = Some (DictObj hardware_items) \<and>
   map_of hardware_items (ascii ''data'') = Some (VRef 1) \<and>
   view 2 first_read (VRef 5) =
     JObj [(ascii ''timestamp'', JStr (ascii ''2025-01-01T00:00:00+00:00'')),
           (ascii ''data'', JObj [(ascii ''os'', JStr (ascii ''Linux''))])] \<and>
   get_hardware_info example_store (mutate_all nested_write first_read) = Inr (6, second_read) \<and>
   view 2 second_read (VRef 6) =
     JObj [(ascii ''timestamp'', JStr (ascii ''2025-01-01T00:00:00+00:00'')),
           (ascii ''data'', JObj [(ascii ''os'', JStr (ascii ''changed''))])] \<and>
   view 2 second_read (VRef 6) \<noteq> view 2 first_read (VRef 5)"
  by (simp add: example_store_ok first_read_eval)
     (simp add: get_hardware_info_def py_copy_def alloc_def example_store_def example_heap_def
        first_read_def second_read_def nested_write_def mutate_def hardware_items_def
        view_numeral view_1 ascii_def)

text \<open>
  Claim C8, amended. The collections the four read accessors return are new objects:
  for every sequence of caller mutations applied to a returned collection itself
  (assigning, deleting, clearing, appending; not to its nested members, which it shares
  with the store), every accessor called afterwards returns what it would have returned
  without the mutations, and the accessor called again returns what it returned the
  first time, at every depth.
\<close>

theorem top_level_mutations_do_not_reach_the_store:
  assumes ok: "store_ok self h"
    and get: "get \<in> accessors" and get': "get' \<in> accessors"
    and first: "get self h = Inr (r, h1)"
    and own: "list_all (\<lambda>rm. fst rm = r) ms"
  shows "\<exists>r2 h2 r3 h3.
           get' self h1 = Inr (r2, h2) \<and>
           get' self (mutate_all ms h1) = Inr (r3, h3) \<and>
           (\<forall>n. view n h3 (VRef r3) = view n h2 (VRef r2)) \<and>
           (get' = get \<longrightarrow> (\<forall>n. view n h3 (VRef r3) = view n h1 (VRef r)))"
proof -
  let ?N = "next_ref h"
  from ok have closed: "closed_below ?N h" by (simp add: store_ok_def)
  from accessor_reads [OF get ok] obtain src f where src: "src < ?N"
    and geteq: "reads_from get self src f"
    and f: "\<And>obj. obj_below ?N obj \<Longrightarrow> obj_below ?N (f obj)"
    by blast
  from accessor_reads [OF get' ok] obtain src' f' where src': "src' < ?N"
    and geteq': "reads_from get' self src' f'"
    and f': "\<And>obj. obj_below ?N obj \<Longrightarrow> obj_below ?N (f' obj)"
    by blast
  from closed src obtain obj where obj: "objects h src = Some obj" "obj_below ?N obj"
    by (auto simp: closed_below_def)
  from closed src' obtain obj' where obj': "objects h src' = Some obj'" "obj_below ?N obj'"
    by (auto simp: closed_below_def)
  from first reads_from_Some [OF geteq obj(1)] have "alloc (f obj) h = (r, h1)"
    by simp
  then have "r = fst (alloc (f obj) h)" and h1: "h1 = snd (alloc (f obj) h)"
    by simp_all
  then have r: "r = ?N" by simp
  have a1: "agree_below ?N h h1"
    unfolding h1 by (rule agree_below_alloc) simp
  let ?hm = "mutate_all ms h1"
  have "list_all (\<lambda>rm. ?N \<le> fst rm) ms"
    using own r by (simp add: list_all_iff)
  then have "agree_below ?N h1 ?hm" by (rule agree_below_mutate_all)
  with a1 have am: "agree_below ?N h ?hm" by (rule agree_below_trans)
  have o1: "objects h1 src' = Some obj'" using a1 src' obj' by (simp add: agree_below_def)
  have om: "objects ?hm src' = Some obj'" using am src' obj' by (simp add: agree_below_def)
  define h2 where "h2 = snd (alloc (f' obj') h1)"
  define h3 where "h3 = snd (alloc (f' obj') ?hm)"
  have g2: "get' self h1 = Inr (next_ref h1, h2)"
    using reads_from_Some [OF geteq' o1] by (simp add: h2_def alloc_def)
  have g3: "get' self ?hm = Inr (next_ref ?hm, h3)"
    using reads_from_Some [OF geteq' om] by (simp add: h3_def alloc_def)
  have a2: "agree_below ?N h h2"
    using a1 agree_below_alloc [of ?N h1 "f' obj'"] unfolding h2_def h1
    by (auto intro: agree_below_trans)
  have a3: "agree_below ?N h h3"
    using am agree_below_alloc [of ?N ?hm "f' obj'"] unfolding h3_def h1
    by (auto intro: agree_below_trans)
  have c2: "objects h2 (next_ref h1) = Some (f' obj')" by (simp add: h2_def)
  have c3: "objects h3 (next_ref ?hm) = Some (f' obj')" by (simp add: h3_def)
  have v23: "view n h3 (VRef (next_ref ?hm)) = view n h2 (VRef (next_ref h1))" for n
    by (rule view_fresh [OF closed a2 c2 f' [OF obj'(2)] a3 c3])
  have v13: "view n h3 (VRef (next_ref ?hm)) = view n h1 (VRef r)" if same: "get' = get" for n
  proof -
    from same reads_from_Some [OF geteq obj(1)] reads_from_Some [OF geteq' obj'(1)]
    have "alloc (f' obj') h = alloc (f obj) h"
      by simp
    then have "objects (snd (alloc (f' obj') h)) (next_ref h) =
               objects (snd (alloc (f obj) h)) (next_ref h)"
      by simp
    then have ff: "f' obj' = f obj"
      by simp
    have c1: "objects h1 r = Some (f obj)" by (simp add: h1 r)
    show ?thesis
      by (rule view_fresh [OF closed a1 c1 f [OF obj(2)] a3 c3 [unfolded ff]])
  qed
  from g2 g3 v23 v13 show ?thesis by blast
qed

text \<open>The caller replaces the nested dict in the returned copy and then clears the copy;
  the next snapshot is the first one.\<close>

definition top_level_writes :: "(nat \<times> mutation) list" where
  "top_level_writes = [(5, SetItem (ascii ''data'') VNone), (5, Clear)]"

theorem top_level_mutations_do_not_reach_the_store_witness:
  "store_ok example_store example_heap \<and>
   get_hardware_info example_store example_heap = Inr (5, first_read) \<and>
   objects (mutate_all top_level_writes first_read) 5 = Some (DictObj []) \<and>
   (\<exists>r3 h3.
      get_hardware_info example_store (mutate_all top_level_writes first_read) = Inr (r3, h3) \<and>
      view 2 h3 (VRef r3) =
        JObj [(ascii ''timestamp'', JStr (ascii ''2025-01-01T00:00:00+00:00'')),
              (ascii ''data'', JObj [(ascii ''os'', JStr (ascii ''Linux''))])])"
proof -
  have acc: "get_hardware_info \<in> accessors"
    by (simp add: accessors_def)
  have own: "list_all (\<lambda>rm. fst rm = 5) top_level_writes"
    by (simp add: top_level_writes_def)
  from top_level_mutations_do_not_reach_the_store
    [OF example_store_ok acc acc first_read_eval own]
  obtain r3 h3 where
    g: "get_hardware_info example_store (mutate_all top_level_writes first_read) = Inr (r3, h3)"
    and v: "view 2 h3 (VRef r3) = view 2 first_read (VRef 5)"
    by blast
  have cleared: "objects (mutate_all top_level_writes first_read) 5 = Some (DictObj [])"
    by (simp add: top_level_writes_def mutate_def first_read_def)
  have "view 2 first_read (VRef 5) =
          JObj [(ascii ''timestamp'', JStr (ascii ''2025-01-01T00:00:00+00:00'')),
                (ascii ''data'', JObj [(ascii ''os'', JStr (ascii ''Linux''))])]"
    by (simp add: first_read_def example_heap_def hardware_items_def view_numeral view_1 ascii_def)
  with v have "view 2 h3 (VRef r3) =
          JObj [(ascii ''timestamp'', JStr (ascii ''2025-01-01T00:00:00+00:00'')),
                (ascii ''data'', JObj [(ascii ''os'', JStr (ascii ''Linux''))])]"
    by simp
  with g example_store_ok first_read_eval cleared show ?thesis by blast
qed


end
